theory Spec2Isabelle
  imports Complex_Main
begin

section \<open>JavaScript numbers\<close>

text \<open>
  A JavaScript number is an IEEE 754 binary64 value.  The finite ones are carried by their
  exact rational value; the two zeros are identified (no operation of the program tells
  them apart).  Every arithmetic result is rounded to the nearest representable value,
  ties to even, and overflows to an infinity, by \<open>rd\<close>.
\<close>

datatype jsnum = NaN | PosInf | NegInf | Fin rat

function bit_length :: "int \<Rightarrow> nat" where
  "bit_length n = (if n \<le> 0 then 0 else Suc (bit_length (n div 2)))"
  by pat_completeness auto
termination
  by (relation "measure nat") auto

declare bit_length.simps [simp del]

definition pow2 :: "int \<Rightarrow> rat" where
  "pow2 e = (if 0 \<le> e then 2 ^ nat e else 1 / 2 ^ nat (- e))"

text \<open>\<open>floor_log2 a\<close> is the exponent \<open>e\<close> with \<open>2^e \<le> a < 2^(e+1)\<close>, for \<open>a > 0\<close>.\<close>

definition floor_log2 :: "rat \<Rightarrow> int" where
  "floor_log2 a =
     (if 1 \<le> a then int (bit_length \<lfloor>a\<rfloor>) - 1
      else - int (bit_length (\<lceil>1 / a\<rceil> - 1)))"

definition round_half_even :: "rat \<Rightarrow> int" where
  "round_half_even m =
     (let f = \<lfloor>m\<rfloor>; r = m - of_int f
      in if r < 1 / 2 then f else if 1 / 2 < r then f + 1
         else if even f then f else f + 1)"

text \<open>
  Rounding of a positive rational to 53 significant bits, with the exponent of the least
  bit no smaller than \<open>-1074\<close> (subnormal numbers, underflow to zero).
\<close>

definition round_pos :: "rat \<Rightarrow> rat" where
  "round_pos a =
     (let q = pow2 (max (floor_log2 a - 52) (- 1074))
      in of_int (round_half_even (a / q)) * q)"

definition rd :: "rat \<Rightarrow> jsnum" where
  "rd r =
     (if r = 0 then Fin 0
      else let v = round_pos \<bar>r\<bar>
           in if pow2 1024 \<le> v then (if 0 < r then PosInf else NegInf)
              else Fin (if 0 < r then v else - v))"

text \<open>\<open>Number.isFinite\<close>, the comparisons \<open><=\<close>, \<open>>=\<close> and \<open>===\<close> on numbers.\<close>

definition isFinite :: "jsnum \<Rightarrow> bool" where
  "isFinite n = (case n of Fin r \<Rightarrow> True | _ \<Rightarrow> False)"

fun js_le :: "jsnum \<Rightarrow> jsnum \<Rightarrow> bool" where
  "js_le NaN y = False"
| "js_le x NaN = False"
| "js_le NegInf y = True"
| "js_le x PosInf = True"
| "js_le PosInf y = False"
| "js_le x NegInf = False"
| "js_le (Fin a) (Fin b) = (a \<le> b)"

definition js_ge :: "jsnum \<Rightarrow> jsnum \<Rightarrow> bool" where
  "js_ge x y = js_le y x"

definition num_eq :: "jsnum \<Rightarrow> jsnum \<Rightarrow> bool" where
  "num_eq x y = (x \<noteq> NaN \<and> x = y)"

text \<open>The sign of a number that is not NaN, and the infinity of a sign.\<close>

definition negative :: "jsnum \<Rightarrow> bool" where
  "negative n = (case n of NegInf \<Rightarrow> True | Fin r \<Rightarrow> r < 0 | _ \<Rightarrow> False)"

definition infinity :: "bool \<Rightarrow> jsnum" where
  "infinity neg = (if neg then NegInf else PosInf)"

text \<open>Multiplication and division of numbers (\<open>*\<close> and \<open>/\<close>).\<close>

definition fmul :: "jsnum \<Rightarrow> jsnum \<Rightarrow> jsnum" where
  "fmul x y =
     (case (x, y) of
        (Fin a, Fin b) \<Rightarrow> rd (a * b)
      | (NaN, _) \<Rightarrow> NaN
      | (_, NaN) \<Rightarrow> NaN
      | _ \<Rightarrow> if x = Fin 0 \<or> y = Fin 0 then NaN
             else infinity (negative x \<noteq> negative y))"

definition fdiv :: "jsnum \<Rightarrow> jsnum \<Rightarrow> jsnum" where
  "fdiv x y =
     (case (x, y) of
        (NaN, _) \<Rightarrow> NaN
      | (_, NaN) \<Rightarrow> NaN
      | (Fin a, Fin b) \<Rightarrow>
          if b = 0 then (if a = 0 then NaN else infinity (a < 0))
          else rd (a / b)
      | (Fin a, _) \<Rightarrow> Fin 0
      | (_, Fin b) \<Rightarrow> infinity (negative x \<noteq> negative y)
      | _ \<Rightarrow> NaN)"

text \<open>
  \<open>Math.round\<close>: the nearest integer, a tie going up.  On a binary64 value the result is
  exact.
\<close>

definition Math_round :: "jsnum \<Rightarrow> jsnum" where
  "Math_round n = (case n of Fin r \<Rightarrow> Fin (of_int \<lfloor>r + 1 / 2\<rfloor>) | _ \<Rightarrow> n)"

text \<open>The literals \<open>1e9\<close> and \<open>0.01\<close>, and the constant \<open>LAMPORTS_PER_SOL\<close> of the chain library.\<close>

definition lit_1e9 :: jsnum where
  "lit_1e9 = Fin 1000000000"

definition lit_0_01 :: jsnum where
  "lit_0_01 = rd (1 / 100)"

definition LAMPORTS_PER_SOL :: jsnum where
  "LAMPORTS_PER_SOL = Fin 1000000000"

section \<open>JavaScript values and the environment of a request\<close>

text \<open>
  The fields of a parsed JSON body: absent (\<open>undefined\<close>), \<open>null\<close>, a boolean, a number or
  a string.  Strings are byte strings.  Array and object values are not modelled.
\<close>

datatype jsval = JUndefined | JNull | JBool bool | JNum jsnum | JStr string

type_synonym body = "string \<Rightarrow> jsval"

text \<open>An instruction of a parsed transaction, as the RPC node returns it.\<close>

record instruction =
  program :: jsval
  parsed_type :: jsval
  info_source :: jsval
  info_destination :: jsval
  info_lamports :: jsval

datatype rpc_result = RpcError string | RpcNull | RpcParsed "instruction list"

text \<open>
  Everything a request handler reads from outside the repository: the conversions of the
  JavaScript runtime and of the storage engine between numbers and text, the identifier
  generator (\<open>nanoid env k\<close> is the result of the \<open>k\<close>-th call during the request), the
  clock, the process environment, and the answers of the chain libraries.
\<close>

record env =
  StringToNumber :: "string \<Rightarrow> jsnum"
  NumberToString :: "jsnum \<Rightarrow> string"
  sqlite_real_text :: "jsnum \<Rightarrow> string"
  nanoid :: "nat \<Rightarrow> string"
  Date_now :: int
  TREASURY_PUBKEY :: "string option"
  SOLANA_RPC :: "string option"
  PublicKey_valid :: "jsval \<Rightarrow> bool"
  getLatestBlockhash :: "string + string"
  serialize_transfer :: "string \<Rightarrow> jsval \<Rightarrow> string \<Rightarrow> jsnum \<Rightarrow> string + string"
  getParsedTransaction :: "jsval \<Rightarrow> rpc_result"
  verifyMessage :: "jsval \<Rightarrow> jsval \<Rightarrow> string + string"

definition truthy :: "jsval \<Rightarrow> bool" where
  "truthy v =
     (case v of
        JUndefined \<Rightarrow> False
      | JNull \<Rightarrow> False
      | JBool b \<Rightarrow> b
      | JNum n \<Rightarrow> n \<noteq> NaN \<and> n \<noteq> Fin 0
      | JStr s \<Rightarrow> s \<noteq> [])"

definition typeof :: "jsval \<Rightarrow> string" where
  "typeof v =
     (case v of
        JUndefined \<Rightarrow> ''undefined''
      | JNull \<Rightarrow> ''object''
      | JBool b \<Rightarrow> ''boolean''
      | JNum n \<Rightarrow> ''number''
      | JStr s \<Rightarrow> ''string'')"

definition strict_eq :: "jsval \<Rightarrow> jsval \<Rightarrow> bool" where
  "strict_eq v w =
     (case (v, w) of
        (JNum a, JNum b) \<Rightarrow> num_eq a b
      | _ \<Rightarrow> v = w)"

definition ToNumber :: "env \<Rightarrow> jsval \<Rightarrow> jsnum" where
  "ToNumber env v =
     (case v of
        JUndefined \<Rightarrow> NaN
      | JNull \<Rightarrow> Fin 0
      | JBool b \<Rightarrow> (if b then Fin 1 else Fin 0)
      | JNum n \<Rightarrow> n
      | JStr s \<Rightarrow> StringToNumber env s)"

definition ToString :: "env \<Rightarrow> jsval \<Rightarrow> string" where
  "ToString env v =
     (case v of
        JUndefined \<Rightarrow> ''undefined''
      | JNull \<Rightarrow> ''null''
      | JBool b \<Rightarrow> (if b then ''true'' else ''false'')
      | JNum n \<Rightarrow> NumberToString env n
      | JStr s \<Rightarrow> s)"

definition env_var :: "string option \<Rightarrow> jsval" where
  "env_var x = (case x of None \<Rightarrow> JUndefined | Some s \<Rightarrow> JStr s)"

definition lower_char :: "char \<Rightarrow> char" where
  "lower_char c =
     (let n = (of_char c :: nat) in if 65 \<le> n \<and> n \<le> 90 then char_of (n + 32) else c)"

definition toLowerCase :: "string \<Rightarrow> string" where
  "toLowerCase s = map lower_char s"

section \<open>Validation helpers\<close>

datatype exn = AssertError string nat | LibError string

definition assert :: "bool \<Rightarrow> string \<Rightarrow> nat \<Rightarrow> exn option" where
  "assert condition msg st = (if \<not> condition then Some (AssertError msg st) else None)"

text \<open>
  A call that returns a value or throws; \<open>and_then\<close> runs the next call when the first one
  returned.
\<close>

definition and_then :: "exn + 'a \<Rightarrow> ('a \<Rightarrow> exn + 'b) \<Rightarrow> exn + 'b" where
  "and_then x f = (case x of Inl e \<Rightarrow> Inl e | Inr v \<Rightarrow> f v)"

text \<open>\<open>parseAmountSol\<close>; the result \<open>None\<close> is \<open>null\<close>.\<close>

definition parseAmountSol :: "env \<Rightarrow> jsval \<Rightarrow> jsnum option" where
  "parseAmountSol env x =
     (let n = ToNumber env x
      in if \<not> isFinite n \<or> js_le n (Fin 0) then None
         else Some (fdiv (Math_round (fmul n lit_1e9)) lit_1e9))"

text \<open>The test of \<open>/^([1-9A-HJ-NP-Za-km-z]{32,44})$/\<close> on a string.\<close>

definition base58_char :: "char \<Rightarrow> bool" where
  "base58_char c =
     (let n = (of_char c :: nat)
      in (49 \<le> n \<and> n \<le> 57) \<or> (65 \<le> n \<and> n \<le> 72) \<or> (74 \<le> n \<and> n \<le> 78) \<or>
         (80 \<le> n \<and> n \<le> 90) \<or> (97 \<le> n \<and> n \<le> 107) \<or> (109 \<le> n \<and> n \<le> 122))"

definition wallet_regex_test :: "string \<Rightarrow> bool" where
  "wallet_regex_test w = (32 \<le> length w \<and> length w \<le> 44 \<and> list_all base58_char w)"

section \<open>The persistent store\<close>

text \<open>
  The two tables of \<open>db.js\<close>.  \<open>foreign_keys\<close> is the connection's foreign-key
  enforcement: the storage library (better-sqlite3) opens every connection with it
  switched on, and the only pragma the program sets is the journal mode.  \<open>db_open\<close> is the
  database when the file is first created.
\<close>

record market =
  m_id :: string
  m_name :: string
  m_category :: string
  m_yes :: int
  m_no :: int
  m_status :: string
  m_created_at :: int

datatype bet_status = PENDING | CONFIRMED | FAILED | RECEIPT_ONLY

record bet =
  bet_id :: string
  market_id :: string
  side :: string
  amount_sol :: jsnum
  wallet :: string
  chain :: string
  created_at :: int
  status :: bet_status
  tx :: "string option"
  proof_text :: "string option"

record store =
  markets :: "market list"
  bets :: "bet list"
  foreign_keys :: bool

definition db_open :: store where
  "db_open = \<lparr>markets = [], bets = [], foreign_keys = True\<rparr>"

text \<open>
  Binding a JavaScript value to a statement parameter that is compared with, or stored
  in, a column of TEXT affinity: a string is bound as it is, a number is bound as a REAL
  and converted to text (NaN is bound as NULL), \<open>null\<close> and \<open>undefined\<close> are bound as NULL
  (\<open>None\<close>), and a boolean is refused with a \<open>TypeError\<close>.
\<close>

definition bind_text :: "env \<Rightarrow> jsval \<Rightarrow> exn + string option" where
  "bind_text env v =
     (case v of
        JStr s \<Rightarrow> Inr (Some s)
      | JNum n \<Rightarrow> (if n = NaN then Inr None else Inr (Some (sqlite_real_text env n)))
      | JNull \<Rightarrow> Inr None
      | JUndefined \<Rightarrow> Inr None
      | JBool b \<Rightarrow> Inl (LibError ''SQLite3 can only bind numbers, strings, bigints, buffers, and null''))"

definition nullish :: "jsval \<Rightarrow> jsval" where
  "nullish v = (case v of JUndefined \<Rightarrow> JNull | _ \<Rightarrow> v)"

definition catalogue :: "(string \<times> string \<times> int \<times> int) list" where
  "catalogue =
     [(''New York City Mayoral Election'', ''Politics'', 62, 38),
      (''New Jersey Governor Election 2025'', ''Politics'', 74, 26),
      (''Democratic sweep in Congress?'', ''Politics'', 41, 59),
      (''Zohra Mamdani margin > 10%'', ''Politics'', 28, 72),
      (''Heat vs Clippers '' @ [CHR 0xE2, CHR 0x80, CHR 0x94] @ '' Heat win'', ''Sports'', 46, 54),
      (''Kraken beat Blackhawks'', ''Sports'', 64, 36),
      (''Canucks beat Predators'', ''Sports'', 58, 42),
      (''Seattle vs Minnesota '' @ [CHR 0xE2, CHR 0x80, CHR 0x94] @ '' Seattle win'', ''Sports'', 62, 38),
      (''US Gov shutdown ends by next week'', ''Macro'', 14, 86),
      (''Fed rate cut in December'', ''Macro'', 35, 65),
      (''BTC > $100k by EOY'', ''Crypto'', 22, 78),
      (''SOL > $400 by Q4'', ''Crypto'', 31, 69),
      (''ETH ETF approved this quarter'', ''Crypto'', 27, 73),
      (''Israel'' @ [CHR 0xE2, CHR 0x80, CHR 0x93] @ ''Hamas ceasefire this month'', ''Politics'', 18, 82),
      (''Maduro out by year end'', ''Politics'', 21, 79),
      (''US CPI MoM < 0.1% next print'', ''Macro'', 44, 56),
      (''OpenAI releases new flagship model'', ''Tech'', 52, 48),
      (''Apple headset > 5M shipments in 2026'', ''Tech'', 19, 81),
      (''Bitcoin dominance > 60% this year'', ''Crypto'', 33, 67),
      (''S&P 500 makes new ATH this quarter'', ''Macro'', 48, 52)]"

text \<open>
  The loop of \<open>insertMany\<close>: the \<open>k\<close>-th row takes the \<open>k\<close>-th identifier; an identifier that
  is already a key of the table violates the primary key, and the statement throws.
\<close>

fun insertMany :: "env \<Rightarrow> int \<Rightarrow> nat \<Rightarrow> (string \<times> string \<times> int \<times> int) list \<Rightarrow> market list
    \<Rightarrow> exn + market list" where
  "insertMany env now k [] ms = Inr ms"
| "insertMany env now k ((name, category, yes, no) # rows) ms =
     (let ident = nanoid env k
      in if ident \<in> set (map m_id ms)
         then Inl (LibError ''UNIQUE constraint failed: markets.id'')
         else insertMany env now (Suc k) rows
                (ms @ [\<lparr>m_id = ident, m_name = name, m_category = category, m_yes = yes,
                         m_no = no, m_status = ''LIVE'', m_created_at = now\<rparr>]))"

text \<open>
  \<open>seedIfEmpty\<close>.  The inserts run in one transaction: when one of them throws, the
  transaction is rolled back and the store is as before.
\<close>

definition seedIfEmpty :: "env \<Rightarrow> store \<Rightarrow> exn + store" where
  "seedIfEmpty env s =
     (let count = length (markets s)
      in if 0 < count then Inr s
         else (case insertMany env (Date_now env) 0 catalogue (markets s) of
                 Inl e \<Rightarrow> Inl e
               | Inr ms \<Rightarrow> Inr (s\<lparr>markets := ms\<rparr>)))"

text \<open>
  \<open>createBet\<close>: the insert checks the constraints of the schema (NOT NULL, the CHECK on
  \<open>side\<close>, the primary key, and the foreign key when enforcement is on).
\<close>

definition insert_bet :: "env \<Rightarrow> store \<Rightarrow> string \<Rightarrow> string option \<Rightarrow> string option \<Rightarrow> jsnum
    \<Rightarrow> string option \<Rightarrow> string \<Rightarrow> bet_status \<Rightarrow> exn + store \<times> string" where
  "insert_bet env s ident mk sd amount_sol' wl chain' status' =
     (if mk = None \<or> sd = None \<or> amount_sol' = NaN \<or> wl = None
        then Inl (LibError ''NOT NULL constraint failed'')
      else if \<not> (sd = Some ''YES'' \<or> sd = Some ''NO'')
        then Inl (LibError ''CHECK constraint failed: side'')
      else if ident \<in> set (map bet_id (bets s))
        then Inl (LibError ''UNIQUE constraint failed: bets.id'')
      else if foreign_keys s \<and> the mk \<notin> set (map m_id (markets s))
        then Inl (LibError ''FOREIGN KEY constraint failed'')
      else Inr (s\<lparr>bets := bets s @
                  [\<lparr>bet_id = ident, market_id = the mk, side = the sd,
                    amount_sol = amount_sol', wallet = the wl, chain = chain',
                    created_at = Date_now env, status = status', tx = None,
                    proof_text = None\<rparr>]\<rparr>, ident))"

definition createBet :: "env \<Rightarrow> store \<Rightarrow> jsval \<Rightarrow> jsval \<Rightarrow> jsnum \<Rightarrow> jsval \<Rightarrow> string \<Rightarrow> bet_status
    \<Rightarrow> exn + store \<times> string" where
  "createBet env s market_id' side' amount_sol' wallet' chain' status' =
     (let ident = nanoid env 0
      in and_then (bind_text env market_id') (\<lambda>mk.
         and_then (bind_text env side') (\<lambda>sd.
         and_then (bind_text env wallet') (\<lambda>wl.
           insert_bet env s ident mk sd amount_sol' wl chain' status'))))"

text \<open>The row updates; \<open>reason\<close> is an argument of \<open>markBetFailed\<close> that no statement uses.\<close>

definition markBetConfirmed :: "env \<Rightarrow> store \<Rightarrow> jsval \<Rightarrow> jsval \<Rightarrow> jsval \<Rightarrow> exn + store" where
  "markBetConfirmed env s ident tx' proof' =
     and_then (bind_text env tx') (\<lambda>t.
     and_then (bind_text env (nullish proof')) (\<lambda>p.
     and_then (bind_text env ident) (\<lambda>i.
       Inr (s\<lparr>bets := map (\<lambda>b. if Some (bet_id b) = i
                                then b\<lparr>status := CONFIRMED, tx := t, proof_text := p\<rparr> else b)
                           (bets s)\<rparr>))))"

definition markBetFailed :: "env \<Rightarrow> store \<Rightarrow> jsval \<Rightarrow> jsval \<Rightarrow> string \<Rightarrow> exn + store" where
  "markBetFailed env s ident tx' reason =
     and_then (bind_text env (nullish tx')) (\<lambda>t.
     and_then (bind_text env ident) (\<lambda>i.
       Inr (s\<lparr>bets := map (\<lambda>b. if Some (bet_id b) = i
                                then b\<lparr>status := FAILED, tx := t\<rparr> else b)
                           (bets s)\<rparr>)))"

definition getBet :: "env \<Rightarrow> store \<Rightarrow> jsval \<Rightarrow> exn + bet option" where
  "getBet env s ident =
     and_then (bind_text env ident) (\<lambda>i. Inr (find (\<lambda>b. Some (bet_id b) = i) (bets s)))"

definition getMarket :: "env \<Rightarrow> store \<Rightarrow> jsval \<Rightarrow> exn + market option" where
  "getMarket env s ident =
     and_then (bind_text env ident) (\<lambda>i. Inr (find (\<lambda>m. Some (m_id m) = i) (markets s)))"

section \<open>The chain adapter\<close>

definition lib :: "string + 'a \<Rightarrow> exn + 'a" where
  "lib x = (case x of Inl m \<Rightarrow> Inl (LibError m) | Inr v \<Rightarrow> Inr v)"

definition buildSolTransferTx :: "env \<Rightarrow> jsval \<Rightarrow> string \<Rightarrow> jsnum \<Rightarrow> exn + string" where
  "buildSolTransferTx env fromPubkey treasuryPubkey amountSol =
     and_then (lib (getLatestBlockhash env)) (\<lambda>blockhash.
       if \<not> PublicKey_valid env fromPubkey then Inl (LibError ''Invalid public key input'')
       else if \<not> PublicKey_valid env (JStr treasuryPubkey)
         then Inl (LibError ''Invalid public key input'')
       else lib (serialize_transfer env blockhash fromPubkey treasuryPubkey
                   (Math_round (fmul amountSol LAMPORTS_PER_SOL))))"

datatype verdict = VerifiedOk | VerifiedNot string

definition is_transfer :: "instruction \<Rightarrow> bool" where
  "is_transfer i =
     (strict_eq (program i) (JStr ''system'') \<and> strict_eq (parsed_type i) (JStr ''transfer''))"

definition check_transfer :: "env \<Rightarrow> instruction \<Rightarrow> jsval \<Rightarrow> jsval \<Rightarrow> jsnum \<Rightarrow> verdict" where
  "check_transfer env ix fromPubkey toPubkey expectedLamports =
     (let actualFrom = info_source ix;
          actualTo = info_destination ix;
          actualLamports = ToNumber env (info_lamports ix);
          ok = (strict_eq actualFrom fromPubkey \<and> strict_eq actualTo toPubkey \<and>
                num_eq actualLamports expectedLamports)
      in if ok then VerifiedOk
         else VerifiedNot (''MISMATCH from='' @ ToString env actualFrom @
                '' to='' @ ToString env actualTo @
                '' lamports='' @ NumberToString env actualLamports))"

definition verifySolTransfer :: "env \<Rightarrow> jsval \<Rightarrow> jsval \<Rightarrow> jsval \<Rightarrow> jsnum \<Rightarrow> exn + verdict" where
  "verifySolTransfer env signature fromPubkey toPubkey expectedLamports =
     (case getParsedTransaction env signature of
        RpcError m \<Rightarrow> Inl (LibError m)
      | RpcNull \<Rightarrow> Inr (VerifiedNot ''TX_NOT_FOUND'')
      | RpcParsed instructions \<Rightarrow>
          (case find is_transfer instructions of
             None \<Rightarrow> Inr (VerifiedNot ''NO_TRANSFER_IN_TX'')
           | Some ix \<Rightarrow> Inr (check_transfer env ix fromPubkey toPubkey expectedLamports)))"

section \<open>The request handlers\<close>

datatype reply =
    InitiateOk string string
  | ConfirmOk jsval jsval string
  | ConfirmFailed string
  | ReceiptOk string string
  | SeedOk
  | ErrorReply nat string

text \<open>The error handler of \<open>server.js\<close>: the status of the error or 500, and its message.\<close>

definition error_handler :: "exn \<Rightarrow> reply" where
  "error_handler e =
     (case e of
        AssertError msg st \<Rightarrow>
          ErrorReply (if st = 0 then 500 else st) (if msg = [] then ''Internal error'' else msg)
      | LibError msg \<Rightarrow> ErrorReply 500 (if msg = [] then ''Internal error'' else msg))"

definition http_status :: "reply \<Rightarrow> nat" where
  "http_status r = (case r of ErrorReply st msg \<Rightarrow> st | ConfirmFailed reason \<Rightarrow> 400 | _ \<Rightarrow> 200)"

text \<open>
  A handler runs in \<open>try { ... } catch (e) { next(e) }\<close>: an exception ends it with the
  error reply, and the store stays as the statements before the exception left it.
  \<open>guarded a s k\<close> continues with \<open>k\<close> unless the assertion \<open>a\<close> throws while the store is
  \<open>s\<close>; \<open>attempt x s k\<close> does the same for a call \<open>x\<close> that returns a value or throws.
\<close>

definition guarded :: "exn option \<Rightarrow> store \<Rightarrow> store \<times> reply \<Rightarrow> store \<times> reply" where
  "guarded a s k = (case a of Some e \<Rightarrow> (s, error_handler e) | None \<Rightarrow> k)"

definition attempt :: "exn + 'a \<Rightarrow> store \<Rightarrow> ('a \<Rightarrow> store \<times> reply) \<Rightarrow> store \<times> reply" where
  "attempt x s k = (case x of Inl e \<Rightarrow> (s, error_handler e) | Inr v \<Rightarrow> k v)"

definition amount_accepted :: "jsnum option \<Rightarrow> bool" where
  "amount_accepted amt =
     (case amt of None \<Rightarrow> False | Some a \<Rightarrow> truthy (JNum a) \<and> js_ge a lit_0_01)"

definition new_PublicKey :: "env \<Rightarrow> jsval \<Rightarrow> exn option" where
  "new_PublicKey env v =
     (if PublicKey_valid env v then None else Some (LibError ''Invalid public key input''))"

definition initiate :: "env \<Rightarrow> store \<Rightarrow> body \<Rightarrow> store \<times> reply" where
  "initiate env s req =
     (let marketId = req ''marketId''; side' = req ''side''; amountSol = req ''amountSol'';
          wallet' = req ''wallet''
      in guarded (assert (truthy marketId \<and> typeof marketId = ''string'')
                    ''marketId is required'' 400) s
        (guarded (assert (strict_eq side' (JStr ''YES'') \<or> strict_eq side' (JStr ''NO''))
                    ''side must be YES or NO'' 400) s
        (let amt = parseAmountSol env amountSol
         in guarded (assert (amount_accepted amt) ''Minimum amount is 0.01 SOL'' 400) s
           (attempt (getMarket env s marketId) s (\<lambda>market.
            guarded (assert (market \<noteq> None) ''Unknown market'' 400) s
           (guarded (assert (wallet_regex_test (ToString env wallet'))
                       ''Invalid Solana wallet'' 400) s
           (attempt (createBet env s marketId side' (the amt) wallet' ''solana'' PENDING) s
              (\<lambda>(s', betId).
            guarded (assert (truthy (env_var (TREASURY_PUBKEY env)))
                       ''TREASURY_PUBKEY not set'' 500) s'
           (guarded (new_PublicKey env (env_var (TREASURY_PUBKEY env))) s'
           (attempt (buildSolTransferTx env wallet' (the (TREASURY_PUBKEY env)) (the amt)) s'
              (\<lambda>txBase64. (s', InitiateOk betId txBase64))))))))))))"

definition confirm :: "env \<Rightarrow> store \<Rightarrow> body \<Rightarrow> store \<times> reply" where
  "confirm env s req =
     (let betId = req ''betId''; txSignature = req ''txSignature''; wallet' = req ''wallet''
      in guarded (assert (truthy betId \<and> truthy txSignature \<and> truthy wallet')
                    ''betId, txSignature, wallet are required'' 400) s
        (attempt (getBet env s betId) s (\<lambda>found.
         guarded (assert (found \<noteq> None) ''Bet not found'' 400) s
        (let b = the found
         in guarded (assert (strict_eq (JStr (wallet b)) wallet') ''Wallet mismatch'' 400) s
           (let lamports = Math_round (fmul (amount_sol b) LAMPORTS_PER_SOL)
            in attempt (verifySolTransfer env txSignature wallet'
                          (env_var (TREASURY_PUBKEY env)) lamports) s
              (\<lambda>v. case v of
                 VerifiedNot reason \<Rightarrow>
                   attempt (markBetFailed env s betId txSignature reason) s
                     (\<lambda>s'. (s', ConfirmFailed reason))
               | VerifiedOk \<Rightarrow>
                   (let proof' = ''bet:'' @ ToString env betId @ '':sig:'' @
                                 ToString env txSignature
                    in attempt (markBetConfirmed env s betId txSignature (JStr proof')) s
                         (\<lambda>s'. (s', ConfirmOk betId txSignature proof')))))))))"

text \<open>\<open>address.toLowerCase()\<close> throws unless \<open>address\<close> is a string.\<close>

definition toLowerCase_of :: "jsval \<Rightarrow> exn + string" where
  "toLowerCase_of v =
     (case v of JStr a \<Rightarrow> Inr (toLowerCase a)
      | _ \<Rightarrow> Inl (LibError ''address.toLowerCase is not a function''))"

definition evm_receipt :: "env \<Rightarrow> store \<Rightarrow> body \<Rightarrow> store \<times> reply" where
  "evm_receipt env s req =
     (let marketId = req ''marketId''; side' = req ''side''; amount = req ''amount'';
          address = req ''address''; message = req ''message''; signature = req ''signature''
      in guarded (assert (truthy marketId \<and> truthy side' \<and> truthy amount \<and> truthy address \<and>
                          truthy message \<and> truthy signature) ''Missing fields'' 400) s
        (guarded (assert (strict_eq side' (JStr ''YES'') \<or> strict_eq side' (JStr ''NO''))
                    ''Invalid side'' 400) s
        (attempt (lib (verifyMessage env message signature)) s (\<lambda>recovered.
         attempt (toLowerCase_of address) s (\<lambda>lowered.
         guarded (assert (toLowerCase recovered = lowered) ''Invalid signature'' 400) s
        (attempt (createBet env s marketId side' (ToNumber env amount) address ''evm''
                    RECEIPT_ONLY) s
           (\<lambda>(s', betId). (s', ReceiptOk betId recovered))))))))"

text \<open>
  The operations that change the store, and the states the program can reach from the
  freshly opened database.
\<close>

datatype request = SeedReq | InitiateReq body | ConfirmReq body | EvmReceiptReq body

definition step :: "env \<Rightarrow> request \<Rightarrow> store \<Rightarrow> store \<times> reply" where
  "step env r s =
     (case r of
        SeedReq \<Rightarrow> attempt (seedIfEmpty env s) s (\<lambda>s'. (s', SeedOk))
      | InitiateReq b \<Rightarrow> initiate env s b
      | ConfirmReq b \<Rightarrow> confirm env s b
      | EvmReceiptReq b \<Rightarrow> evm_receipt env s b)"

inductive reachable :: "store \<Rightarrow> bool" where
  start: "reachable db_open"
| advance: "reachable s \<Longrightarrow> reachable (fst (step env r s))"

section \<open>A sample run\<close>

text \<open>
  Concrete environments, request bodies and stores, on which the theorems below are
  instantiated: the database is opened and seeded, a bet of 1 SOL is initiated on the
  first market, and confirmation requests follow.
\<close>

definition demo_ids :: "string list" where
  "demo_ids =
     [''Mk1aaaaaaa'', ''Mk2aaaaaaa'', ''Mk3aaaaaaa'', ''Mk4aaaaaaa'', ''Mk5aaaaaaa'',
      ''Mk6aaaaaaa'', ''Mk7aaaaaaa'', ''Mk8aaaaaaa'', ''Mk9aaaaaaa'', ''MkAaaaaaaa'',
      ''MkBaaaaaaa'', ''MkCaaaaaaa'', ''MkDaaaaaaa'', ''MkEaaaaaaa'', ''MkFaaaaaaa'',
      ''MkGaaaaaaa'', ''MkHaaaaaaa'', ''MkJaaaaaaa'', ''MkKaaaaaaa'', ''MkLaaaaaaa'']"

definition demo_wallet :: string where
  "demo_wallet = ''9xQeWvG816bUx9EPjHmaT23yvVM2ZWbrrpZb9PusVFin''"

definition demo_treasury :: string where
  "demo_treasury = ''7EcDhSYGxXyscszYEp35KHN8vvw3svAuLKTzXwCFLtV''"

definition seed_env :: env where
  "seed_env =
     \<lparr>StringToNumber = (\<lambda>s. NaN), NumberToString = (\<lambda>n. ''NaN''),
      sqlite_real_text = (\<lambda>n. ''0.0''), nanoid = (\<lambda>k. demo_ids ! k),
      Date_now = 1700000000000,
      TREASURY_PUBKEY = Some demo_treasury,
      SOLANA_RPC = Some ''https://api.devnet.solana.com'',
      PublicKey_valid = (\<lambda>v. True), getLatestBlockhash = Inr ''blockhash'',
      serialize_transfer = (\<lambda>h f t l. Inr ''AQAB''),
      getParsedTransaction = (\<lambda>g. RpcNull),
      verifyMessage = (\<lambda>m g. Inl ''invalid signature'')\<rparr>"

definition bet_env :: env where
  "bet_env = seed_env\<lparr>nanoid := (\<lambda>k. ''Bet1aaaaaa'')\<rparr>"

definition no_fields :: body where
  "no_fields = (\<lambda>k. JUndefined)"

definition demo_initiate :: body where
  "demo_initiate = no_fields(''marketId'' := JStr ''Mk1aaaaaaa'', ''side'' := JStr ''YES'',
      ''amountSol'' := JNum (Fin 1), ''wallet'' := JStr demo_wallet)"

definition demo_bet :: bet where
  "demo_bet = \<lparr>bet_id = ''Bet1aaaaaa'', market_id = ''Mk1aaaaaaa'', side = ''YES'',
      amount_sol = Fin 1, wallet = demo_wallet, chain = ''solana'',
      created_at = 1700000000000, status = PENDING, tx = None, proof_text = None\<rparr>"

definition seeded :: store where
  "seeded = fst (step seed_env SeedReq db_open)"

definition pending :: store where
  "pending = fst (step bet_env (InitiateReq demo_initiate) seeded)"

text \<open>The literal \<open>0.005\<close>, and a request for a bet of that amount.\<close>

definition lit_0_005 :: jsnum where
  "lit_0_005 = rd (5 / 1000)"

definition small_initiate :: body where
  "small_initiate = demo_initiate(''amountSol'' := JNum lit_0_005)"

text \<open>
  The literal \<open>0.009999999999\<close>, which is below the literal \<open>0.01\<close>, and a request for a
  bet of that amount.
\<close>

definition lit_below_min :: jsnum where
  "lit_below_min = rd (9999999999 / 1000000000000)"

definition below_min_initiate :: body where
  "below_min_initiate = demo_initiate(''amountSol'' := JNum lit_below_min)"

text \<open>A confirmation request for the sample bet from another wallet.\<close>

definition other_wallet_confirm :: body where
  "other_wallet_confirm = no_fields(''betId'' := JStr ''Bet1aaaaaa'',
      ''txSignature'' := JStr ''5VERv8NMvzbJMEkV8xnrLkEaWRtSz9CosKDYjCJjBRnb'',
      ''wallet'' := JStr demo_treasury)"

text \<open>An environment in which the treasury address is not configured.\<close>

definition no_treasury_env :: env where
  "no_treasury_env = bet_env\<lparr>TREASURY_PUBKEY := None\<rparr>"

text \<open>
  The rows that the seeding loop builds from a catalogue, the \<open>j\<close>-th with the \<open>j\<close>-th
  identifier.
\<close>

definition seed_rows :: "env \<Rightarrow> int \<Rightarrow> nat \<Rightarrow> (string \<times> string \<times> int \<times> int) list \<Rightarrow> market list" where
  "seed_rows env now k rows =
     map (\<lambda>(j, name, category, yes, no).
            \<lparr>m_id = nanoid env j, m_name = name, m_category = category, m_yes = yes,
             m_no = no, m_status = ''LIVE'', m_created_at = now\<rparr>)
         (zip [k..<k + length rows] rows)"

text \<open>
  A confirmation request for the sample bet from its own wallet, the instruction that
  pays 1 SOL from that wallet to the treasury, and an environment in which the RPC node
  returns a transaction with that instruction.
\<close>

definition demo_signature :: string where
  "demo_signature = ''5VERv8NMvzbJMEkV8xnrLkEaWRtSz9CosKDYjCJjBRnb''"

definition demo_confirm :: body where
  "demo_confirm = no_fields(''betId'' := JStr ''Bet1aaaaaa'',
      ''txSignature'' := JStr demo_signature, ''wallet'' := JStr demo_wallet)"

definition demo_transfer :: instruction where
  "demo_transfer = \<lparr>program = JStr ''system'', parsed_type = JStr ''transfer'',
      info_source = JStr demo_wallet, info_destination = JStr demo_treasury,
      info_lamports = JNum (Fin 1000000000)\<rparr>"

definition paid_env :: env where
  "paid_env = bet_env\<lparr>getParsedTransaction := (\<lambda>g. RpcParsed [demo_transfer])\<rparr>"

definition confirmed :: store where
  "confirmed = fst (step paid_env (ConfirmReq demo_confirm) pending)"

definition confirmed_bet :: bet where
  "confirmed_bet = demo_bet\<lparr>status := CONFIRMED, tx := Some demo_signature,
      proof_text := Some (''bet:Bet1aaaaaa:sig:'' @ demo_signature)\<rparr>"

text \<open>
  A signed receipt for the first market with the amount \<open>-5\<close>, and an environment in which
  the signature library recovers the signer's address from it.
\<close>

definition demo_address :: string where
  "demo_address = ''0x52908400098527886E0F7030069857D2E4169EE7''"

definition demo_evm_signature :: string where
  "demo_evm_signature =
     ''0x4d3c1a9e7f20b6851cd2e0a3947f6b58e1d0c2a7b39f4e6581a0d7c3b2e9f41652''
     @ ''7a1e03c9d84b6f25e0a7c1d39b48f6e2057ac3d1e9b84f60a2c7d5e3b19f08c41b''"

definition negative_receipt :: body where
  "negative_receipt = no_fields(''marketId'' := JStr ''Mk1aaaaaaa'', ''side'' := JStr ''NO'',
      ''amount'' := JNum (Fin (- 5)), ''address'' := JStr demo_address,
      ''message'' := JStr ''I bet NO on Mk1aaaaaaa'', ''signature'' := JStr demo_evm_signature)"

definition receipt_env :: env where
  "receipt_env = seed_env\<lparr>nanoid := (\<lambda>k. ''Bet2aaaaaa''),
      verifyMessage := (\<lambda>m g. Inr demo_address)\<rparr>"

definition negative_bet :: bet where
  "negative_bet = \<lparr>bet_id = ''Bet2aaaaaa'', market_id = ''Mk1aaaaaaa'', side = ''NO'',
      amount_sol = Fin (- 5), wallet = demo_address, chain = ''evm'',
      created_at = 1700000000000, status = RECEIPT_ONLY, tx = None, proof_text = None\<rparr>"

text \<open>
  A second confirmation request for the sample bet, with another transaction reference
  (one that the RPC node does not find), and the store after it.
\<close>

definition retry_signature :: string where
  "retry_signature = ''3AsdoALgZFuq2oUVWrDYhg2pNeaLJKPLf8hU2mQ6U8qJ''"

definition retry_confirm :: body where
  "retry_confirm = demo_confirm(''txSignature'' := JStr retry_signature)"

definition reconfirmed :: store where
  "reconfirmed = fst (step bet_env (ConfirmReq retry_confirm) confirmed)"

section \<open>Numeric facts\<close>

lemma bit_length_bounds:
  "0 < n \<Longrightarrow> 2 ^ (bit_length n - 1) \<le> n \<and> n < 2 ^ bit_length n"
proof (induction n rule: bit_length.induct)
  case (1 n)
  show ?case
  proof (cases "n = 1")
    case True
    then show ?thesis by (simp add: bit_length.simps[of 1] bit_length.simps[of 0])
  next
    case False
    with "1.prems" have pos: "0 < n div 2" by simp
    have ih: "2 ^ (bit_length (n div 2) - 1) \<le> n div 2 \<and> n div 2 < 2 ^ bit_length (n div 2)"
      using "1.IH" "1.prems" pos by simp
    have bl: "bit_length n = Suc (bit_length (n div 2))"
      using "1.prems" by (simp add: bit_length.simps[of n])
    have blpos: "0 < bit_length (n div 2)"
      using pos by (simp add: bit_length.simps[of "n div 2"])
    then obtain k where k: "bit_length (n div 2) = Suc k"
      by (cases "bit_length (n div 2)") auto
    from ih k have "2 * 2 ^ k \<le> 2 * (n div 2)" by simp
    also have "\<dots> \<le> n" by simp
    finally have lo: "2 ^ (bit_length n - 1) \<le> n" by (simp add: bl k)
    from ih have "n div 2 + 1 \<le> 2 ^ bit_length (n div 2)" by simp
    then have "2 * (n div 2) + 2 \<le> 2 * 2 ^ bit_length (n div 2)" by simp
    moreover have "n < 2 * (n div 2) + 2" by presburger
    ultimately have hi: "n < 2 ^ bit_length n" by (simp add: bl)
    from lo hi show ?thesis ..
  qed
qed

lemma pow2_powi: "pow2 e = 2 powi e"
  by (simp add: pow2_def power_int_def inverse_eq_divide power_one_over)

lemma pow2_pos: "0 < pow2 e"
  by (simp add: pow2_powi)

lemma pow2_mono: "a \<le> b \<Longrightarrow> pow2 a \<le> pow2 b"
  by (simp add: pow2_powi power_int_increasing)

lemma pow2_add: "pow2 (a + b) = pow2 a * pow2 b"
  by (simp add: pow2_powi power_int_add)

lemma pow2_less_cancel: "pow2 a < pow2 b \<Longrightarrow> a < b"
  using pow2_mono [of b a] by (cases "a < b") auto

lemma floor_log2_lower:
  assumes "1 \<le> a"
  shows "pow2 (floor_log2 a) \<le> a"
proof -
  from assms have pos: "0 < \<lfloor>a\<rfloor>" by simp
  then have blpos: "0 < bit_length \<lfloor>a\<rfloor>"
    by (simp add: bit_length.simps[of "\<lfloor>a\<rfloor>"])
  have "(2::int) ^ (bit_length \<lfloor>a\<rfloor> - 1) \<le> \<lfloor>a\<rfloor>"
    using bit_length_bounds [OF pos] by simp
  then have "(of_int (2 ^ (bit_length \<lfloor>a\<rfloor> - 1)) :: rat) \<le> of_int \<lfloor>a\<rfloor>"
    by (simp only: of_int_le_iff)
  also have "\<dots> \<le> a" by simp
  finally have "(2::rat) ^ (bit_length \<lfloor>a\<rfloor> - 1) \<le> a" by simp
  moreover have "floor_log2 a = int (bit_length \<lfloor>a\<rfloor> - 1)"
    using assms blpos by (simp add: floor_log2_def)
  ultimately show ?thesis by (simp add: pow2_def)
qed

lemma floor_log2_upper:
  assumes "1 \<le> a"
  shows "a < pow2 (floor_log2 a + 1)"
proof -
  from assms have pos: "0 < \<lfloor>a\<rfloor>" by simp
  have "\<lfloor>a\<rfloor> < 2 ^ bit_length \<lfloor>a\<rfloor>"
    using bit_length_bounds [OF pos] by simp
  then have "\<lfloor>a\<rfloor> + 1 \<le> 2 ^ bit_length \<lfloor>a\<rfloor>" by simp
  then have "(of_int (\<lfloor>a\<rfloor> + 1) :: rat) \<le> of_int (2 ^ bit_length \<lfloor>a\<rfloor>)"
    by (simp only: of_int_le_iff)
  moreover have "a < of_int (\<lfloor>a\<rfloor> + 1)" by linarith
  ultimately have "a < (2::rat) ^ bit_length \<lfloor>a\<rfloor>" by simp
  moreover have "floor_log2 a + 1 = int (bit_length \<lfloor>a\<rfloor>)"
    using assms by (simp add: floor_log2_def)
  ultimately show ?thesis by (simp add: pow2_def)
qed

lemma round_half_even_ge: "of_int N \<le> m \<Longrightarrow> N \<le> round_half_even m"
proof -
  assume "of_int N \<le> m"
  then have "N \<le> \<lfloor>m\<rfloor>" by (simp add: le_floor_iff)
  moreover have "\<lfloor>m\<rfloor> \<le> round_half_even m"
    by (simp add: round_half_even_def Let_def)
  ultimately show ?thesis by simp
qed

lemma round_pos_overflow:
  assumes "pow2 1024 \<le> a"
  shows "pow2 1024 \<le> round_pos a"
proof -
  have one: "1 \<le> a"
    using assms pow2_mono [of 0 1024] by (simp add: pow2_def)
  define e where "e = floor_log2 a"
  have "pow2 1024 < pow2 (e + 1)"
    using assms floor_log2_upper [OF one] by (simp add: e_def)
  then have e: "1024 \<le> e" using pow2_less_cancel [of 1024 "e + 1"] by simp
  then have q: "max (e - 52) (- 1074) = e - 52" by simp
  have split: "pow2 e = pow2 52 * pow2 (e - 52)"
    using pow2_add [of 52 "e - 52"] by simp
  have "pow2 e \<le> a"
    using floor_log2_lower [OF one] by (simp add: e_def)
  then have "pow2 52 * pow2 (e - 52) \<le> a"
    by (simp only: split)
  then have "pow2 52 \<le> a / pow2 (e - 52)"
    using pow2_pos [of "e - 52"] by (simp add: pos_le_divide_eq)
  moreover have p52: "pow2 52 = of_int (2 ^ 52)" by (simp add: pow2_def)
  ultimately have "(2::int) ^ 52 \<le> round_half_even (a / pow2 (e - 52))"
    using round_half_even_ge [of "2 ^ 52" "a / pow2 (e - 52)"] by simp
  then have "(of_int (2 ^ 52) :: rat) \<le> of_int (round_half_even (a / pow2 (e - 52)))"
    by (simp only: of_int_le_iff)
  then have "pow2 52 * pow2 (e - 52) \<le> of_int (round_half_even (a / pow2 (e - 52))) * pow2 (e - 52)"
    using pow2_pos [of "e - 52"] p52 by (simp only: mult_le_cancel_right) simp
  then have "pow2 e \<le> round_pos a"
    by (simp add: round_pos_def e_def [symmetric] q split Let_def)
  moreover have "pow2 1024 \<le> pow2 e" using e by (rule pow2_mono)
  ultimately show ?thesis by simp
qed

lemma rd_overflow: "pow2 1024 \<le> a \<Longrightarrow> rd a = PosInf"
proof -
  assume a: "pow2 1024 \<le> a"
  then have pos: "0 < a" using pow2_pos [of 1024] by simp
  then have "\<bar>a\<bar> = a" by simp
  with a pos round_pos_overflow [OF a] show ?thesis
    by (simp add: rd_def Let_def)
qed

lemma scaled_overflow: "pow2 1024 \<le> pow2 1000 * 1000000000"
proof -
  have "pow2 1024 = pow2 1000 * pow2 24" using pow2_add [of 1000 24] by simp
  moreover have "pow2 24 \<le> 1000000000" by (simp add: pow2_def)
  ultimately show ?thesis using pow2_pos [of 1000] by simp
qed

lemma parseAmountSol_null:
  "\<not> isFinite (ToNumber env x) \<or> js_le (ToNumber env x) (Fin 0) \<Longrightarrow> parseAmountSol env x = None"
  by (auto simp: parseAmountSol_def Let_def)

lemma parseAmountSol_value:
  "ToNumber env x = Fin r \<Longrightarrow> 0 < r \<Longrightarrow>
     parseAmountSol env x = Some (fdiv (Math_round (rd (r * 1000000000))) (Fin 1000000000))"
  by (simp add: parseAmountSol_def Let_def isFinite_def fmul_def lit_1e9_def)

lemma parseAmountSol_overflow_range:
  assumes "pow2 1024 \<le> r * 1000000000"
  shows "parseAmountSol env (JNum (Fin r)) = Some PosInf"
proof -
  from assms pow2_pos [of 1024] have "0 < r * 1000000000" by simp
  then have pos: "0 < r" by (simp add: zero_less_mult_iff)
  have "rd (r * 1000000000) = PosInf"
    using assms by (rule rd_overflow)
  with pos show ?thesis
    by (simp add: parseAmountSol_def ToNumber_def Let_def isFinite_def fmul_def fdiv_def
        lit_1e9_def Math_round_def infinity_def negative_def)
qed

text \<open>
  C5.  \<open>parseAmountSol\<close> is meant to return a finite positive input clamped to 9 decimals.
  At the finite positive number \<open>2^1000\<close> (about \<open>1.07e301\<close>) the product with \<open>1e9\<close>
  overflows binary64, and the function returns \<open>Infinity\<close> instead of a clamped value.
\<close>

theorem parseAmountSol_overflow:
  "parseAmountSol env (JNum (Fin (pow2 1000))) = Some PosInf"
  using scaled_overflow by (rule parseAmountSol_overflow_range)

theorem parseAmountSol_overflow_witness:
  "parseAmountSol seed_env (JNum (Fin (pow2 1000))) = Some PosInf"
  using parseAmountSol_overflow [of seed_env] by simp

lemma rd_1e9: "rd 1000000000 = Fin 1000000000"
  by code_simp

lemma rd_1: "rd 1 = Fin 1"
  by code_simp

lemma lit_0_01_value: "lit_0_01 = Fin (5764607523034235 / 576460752303423488)"
  by code_simp

lemma lit_0_005_value: "lit_0_005 = Fin (5764607523034235 / 1152921504606846976)"
  by code_simp

lemma scaled_0_005: "fmul lit_0_005 lit_1e9 = Fin 5000000"
  by code_simp

lemma unscaled_0_005: "fdiv (Fin 5000000) lit_1e9 = lit_0_005"
  by code_simp

lemma Math_round_int: "Math_round (Fin (of_int k)) = Fin (of_int k)"
proof -
  have "\<lfloor>(of_int k :: rat) + 1 / 2\<rfloor> = k" by (rule floor_unique) auto
  then show ?thesis by (simp add: Math_round_def)
qed

lemma Math_round_1e9: "Math_round (Fin 1000000000) = Fin 1000000000"
  using Math_round_int [of 1000000000] by simp

lemma Math_round_5e6: "Math_round (Fin 5000000) = Fin 5000000"
  using Math_round_int [of 5000000] by simp

lemma parseAmountSol_1: "parseAmountSol env (JNum (Fin 1)) = Some (Fin 1)"
  by (simp add: parseAmountSol_def ToNumber_def isFinite_def fmul_def fdiv_def lit_1e9_def
      Math_round_1e9 rd_1e9 rd_1)

lemma parseAmountSol_0_005: "parseAmountSol env (JNum lit_0_005) = Some lit_0_005"
proof -
  have "isFinite lit_0_005" and "\<not> js_le lit_0_005 (Fin 0)"
    by (simp_all add: lit_0_005_value isFinite_def)
  then show ?thesis
    by (simp add: parseAmountSol_def ToNumber_def scaled_0_005 Math_round_5e6 unscaled_0_005)
qed

text \<open>
  \<open>0.009999999999 * 1e9\<close> is about \<open>9999999.999\<close>; \<open>Math.round\<close> takes it to \<open>10000000\<close>,
  and the quotient by \<open>1e9\<close> is the literal \<open>0.01\<close>.
\<close>

lemma lit_below_min_value: "lit_below_min = Fin (2882303761228887 / 288230376151711744)"
  by code_simp

lemma rounded_below_min: "Math_round (fmul lit_below_min lit_1e9) = Fin 10000000"
  by code_simp

lemma unscaled_0_01: "fdiv (Fin 10000000) lit_1e9 = lit_0_01"
  by code_simp

lemma below_min_less: "\<not> js_ge lit_below_min lit_0_01"
  by (simp add: js_ge_def lit_below_min_value lit_0_01_value)

lemma parseAmountSol_below_min: "parseAmountSol env (JNum lit_below_min) = Some lit_0_01"
proof -
  have "isFinite lit_below_min" and "\<not> js_le lit_below_min (Fin 0)"
    by (simp_all add: lit_below_min_value isFinite_def)
  then show ?thesis
    by (simp add: parseAmountSol_def ToNumber_def rounded_below_min unscaled_0_01)
qed

lemma lamports_1: "Math_round (fmul (Fin 1) LAMPORTS_PER_SOL) = Fin 1000000000"
  by (simp add: fmul_def LAMPORTS_PER_SOL_def Math_round_1e9 rd_1e9)

lemma js_ge_lit_positive:
  "js_ge a lit_0_01 \<Longrightarrow> a = PosInf \<or> (\<exists>v. a = Fin v \<and> 0 < v)"
  by (cases a) (auto simp: js_ge_def lit_0_01_value)

lemma amount_accepted_iff:
  "amount_accepted amt = (\<exists>a. amt = Some a \<and> js_ge a lit_0_01)"
  by (cases amt) (auto simp: amount_accepted_def truthy_def dest: js_ge_lit_positive)

section \<open>The handlers, step by step\<close>

lemma guarded_cases:
  "guarded a s k = (s', r) \<Longrightarrow>
     (\<exists>e. a = Some e \<and> s' = s \<and> r = error_handler e) \<or> (a = None \<and> k = (s', r))"
  by (cases a) (auto simp: guarded_def)

lemma attempt_cases:
  "attempt x s k = (s', r) \<Longrightarrow>
     (\<exists>e. x = Inl e \<and> s' = s \<and> r = error_handler e) \<or> (\<exists>v. x = Inr v \<and> k v = (s', r))"
  by (cases x) (auto simp: attempt_def)

lemma find_market_None:
  "find (\<lambda>mk. Some (m_id mk) = Some m) (markets s) = None \<longleftrightarrow> m \<notin> m_id ` set (markets s)"
  by (auto simp: find_None_iff)

lemma find_market_Some:
  "m \<in> m_id ` set (markets s) \<Longrightarrow>
     \<exists>mk. find (\<lambda>mk. Some (m_id mk) = Some m) (markets s) = Some mk"
  by (cases "find (\<lambda>mk. Some (m_id mk) = Some m) (markets s)") (auto simp: find_None_iff)

lemma getMarket_JStr:
  "getMarket env s (JStr m) = Inr (find (\<lambda>mk. Some (m_id mk) = Some m) (markets s))"
  by (simp add: getMarket_def and_then_def bind_text_def)

lemma createBet_row:
  assumes "createBet env s mk sd am wl ch st = Inr (s', k)"
  shows "\<exists>row. s' = s\<lparr>bets := bets s @ [row]\<rparr> \<and> k = nanoid env 0 \<and> bet_id row = nanoid env 0 \<and>
           bind_text env mk = Inr (Some (market_id row)) \<and>
           bind_text env sd = Inr (Some (side row)) \<and>
           bind_text env wl = Inr (Some (wallet row)) \<and>
           (side row = ''YES'' \<or> side row = ''NO'') \<and>
           amount_sol row = am \<and> am \<noteq> NaN \<and> chain row = ch \<and> status row = st \<and>
           created_at row = Date_now env \<and> tx row = None \<and> proof_text row = None \<and>
           nanoid env 0 \<notin> bet_id ` set (bets s) \<and>
           (foreign_keys s \<longrightarrow> market_id row \<in> m_id ` set (markets s))"
  using assms
  by (auto simp: createBet_def Let_def and_then_def insert_bet_def split: sum.splits if_splits)

lemma createBet_strings:
  assumes "sd = ''YES'' \<or> sd = ''NO''" "a \<noteq> NaN" "nanoid env 0 \<notin> bet_id ` set (bets s)"
    and "foreign_keys s \<longrightarrow> m \<in> m_id ` set (markets s)"
  shows "createBet env s (JStr m) (JStr sd) a (JStr w) ch st =
           Inr (s\<lparr>bets := bets s @
                  [\<lparr>bet_id = nanoid env 0, market_id = m, side = sd, amount_sol = a, wallet = w,
                    chain = ch, created_at = Date_now env, status = st, tx = None,
                    proof_text = None\<rparr>]\<rparr>, nanoid env 0)"
  using assms
  by (auto simp: createBet_def Let_def and_then_def insert_bet_def bind_text_def)

lemma buildSolTransferTx_error:
  "buildSolTransferTx env w t a = Inl e \<Longrightarrow> \<exists>msg. e = LibError msg"
  by (auto simp: buildSolTransferTx_def and_then_def lib_def split: sum.splits if_splits)

lemma initiate_inserts:
  assumes m: "req ''marketId'' = JStr m" "m \<noteq> []"
    and sd: "req ''side'' = JStr sd" "sd = ''YES'' \<or> sd = ''NO''"
    and a: "parseAmountSol env (req ''amountSol'') = Some a" "js_ge a lit_0_01"
    and mk: "m \<in> m_id ` set (markets s)"
    and w: "req ''wallet'' = JStr w" "wallet_regex_test w"
    and fresh: "nanoid env 0 \<notin> bet_id ` set (bets s)"
  shows "\<exists>r. initiate env s req =
           (s\<lparr>bets := bets s @
                  [\<lparr>bet_id = nanoid env 0, market_id = m, side = sd, amount_sol = a, wallet = w,
                    chain = ''solana'', created_at = Date_now env, status = PENDING, tx = None,
                    proof_text = None\<rparr>]\<rparr>, r) \<and>
           (\<not> truthy (env_var (TREASURY_PUBKEY env))
              \<longrightarrow> r = ErrorReply 500 ''TREASURY_PUBKEY not set'') \<and>
           ((\<exists>t. r = InitiateOk (nanoid env 0) t) \<or> (\<exists>msg. r = ErrorReply 500 msg))"
proof -
  from a(2) have nn: "a \<noteq> NaN" by (auto dest: js_ge_lit_positive)
  from a have acc: "amount_accepted (parseAmountSol env (req ''amountSol''))"
    by (simp add: amount_accepted_iff)
  from find_market_Some [OF mk] obtain mkt
    where mkt: "find (\<lambda>mk. Some (m_id mk) = Some m) (markets s) = Some mkt" by blast
  have cb: "createBet env s (JStr m) (JStr sd) a (JStr w) ''solana'' PENDING =
           Inr (s\<lparr>bets := bets s @
                  [\<lparr>bet_id = nanoid env 0, market_id = m, side = sd, amount_sol = a, wallet = w,
                    chain = ''solana'', created_at = Date_now env, status = PENDING, tx = None,
                    proof_text = None\<rparr>]\<rparr>, nanoid env 0)"
    using sd(2) nn fresh mk by (intro createBet_strings) auto
  show ?thesis
    using m sd a(1) acc w mkt
    by (auto simp add: initiate_def Let_def guarded_def attempt_def assert_def truthy_def typeof_def
        strict_eq_def getMarket_JStr ToString_def cb new_PublicKey_def error_handler_def
        split: sum.splits dest!: buildSolTransferTx_error)
qed

section \<open>The sample run, evaluated\<close>

lemma seeded_facts:
  "map m_id (markets seeded) = demo_ids \<and> bets seeded = [] \<and> foreign_keys seeded"
  by (simp add: seeded_def step_def attempt_def seedIfEmpty_def db_open_def catalogue_def
      seed_env_def demo_ids_def Let_def)

lemma seeded_first_market: "''Mk1aaaaaaa'' \<in> m_id ` set (markets seeded)"
  using seeded_facts by (simp add: demo_ids_def flip: set_map)

lemma demo_wallet_ok: "wallet_regex_test demo_wallet"
  by (simp add: wallet_regex_test_def demo_wallet_def base58_char_def)

lemma pending_eq: "pending = seeded\<lparr>bets := [demo_bet]\<rparr>"
proof -
  have "\<exists>r. initiate bet_env seeded demo_initiate = (seeded\<lparr>bets := bets seeded @ [demo_bet]\<rparr>, r)"
    using initiate_inserts [where req = demo_initiate and env = bet_env and s = seeded
        and m = "''Mk1aaaaaaa''" and sd = "''YES''" and a = "Fin 1" and w = demo_wallet]
      seeded_first_market demo_wallet_ok seeded_facts
    by (auto simp add: demo_initiate_def no_fields_def parseAmountSol_1 js_ge_def lit_0_01_value
        demo_bet_def bet_env_def seed_env_def)
  then show ?thesis
    using seeded_facts by (auto simp add: pending_def step_def)
qed

lemma reachable_seeded: "reachable seeded"
  unfolding seeded_def by (rule reachable.advance [OF reachable.start])

lemma reachable_pending: "reachable pending"
  unfolding pending_def by (rule reachable.advance [OF reachable_seeded])

text \<open>
  An initiate request for \<open>2^1000\<close> SOL passes the amount check (\<open>Infinity >= 0.01\<close>), and
  the row is stored with the amount \<open>Infinity\<close>.
\<close>

lemma initiate_infinite_amount:
  "bets (fst (initiate bet_env seeded (demo_initiate(''amountSol'' := JNum (Fin (pow2 1000)))))) =
     [demo_bet\<lparr>amount_sol := PosInf\<rparr>]"
proof -
  let ?req = "demo_initiate(''amountSol'' := JNum (Fin (pow2 1000)))"
  have p: "parseAmountSol bet_env (?req ''amountSol'') = Some PosInf"
    using scaled_overflow by (simp add: parseAmountSol_overflow_range)
  have "\<exists>r. initiate bet_env seeded ?req =
          (seeded\<lparr>bets := bets seeded @ [demo_bet\<lparr>amount_sol := PosInf\<rparr>]\<rparr>, r)"
    using initiate_inserts [where req = ?req and env = bet_env and s = seeded
        and m = "''Mk1aaaaaaa''" and sd = "''YES''" and a = PosInf and w = demo_wallet]
      seeded_first_market demo_wallet_ok seeded_facts p
    by (auto simp add: demo_initiate_def no_fields_def js_ge_def lit_0_01_value
        demo_bet_def bet_env_def seed_env_def)
  then show ?thesis using seeded_facts by auto
qed

section \<open>Rejected initiate requests\<close>

lemma initiate_bad_marketId:
  "\<forall>m. req ''marketId'' = JStr m \<longrightarrow> m = [] \<Longrightarrow>
     initiate env s req = (s, ErrorReply 400 ''marketId is required'')"
  by (cases "req ''marketId''")
     (simp_all add: initiate_def Let_def guarded_def assert_def error_handler_def truthy_def typeof_def)

lemma initiate_bad_side:
  assumes "req ''marketId'' = JStr m" "m \<noteq> []"
    and "req ''side'' \<noteq> JStr ''YES''" "req ''side'' \<noteq> JStr ''NO''"
  shows "initiate env s req = (s, ErrorReply 400 ''side must be YES or NO'')"
  using assms
  by (cases "req ''side''")
     (simp_all add: initiate_def Let_def guarded_def assert_def error_handler_def truthy_def
        typeof_def strict_eq_def)

lemma initiate_bad_amount:
  assumes "req ''marketId'' = JStr m" "m \<noteq> []"
    and "req ''side'' = JStr ''YES'' \<or> req ''side'' = JStr ''NO''"
    and "\<not> amount_accepted (parseAmountSol env (req ''amountSol''))"
  shows "initiate env s req = (s, ErrorReply 400 ''Minimum amount is 0.01 SOL'')"
  using assms
  by (auto simp add: initiate_def Let_def guarded_def assert_def error_handler_def truthy_def
        typeof_def strict_eq_def)

lemma initiate_unknown_market:
  assumes "req ''marketId'' = JStr m" "m \<noteq> []"
    and "req ''side'' = JStr ''YES'' \<or> req ''side'' = JStr ''NO''"
    and "amount_accepted (parseAmountSol env (req ''amountSol''))"
    and "m \<notin> m_id ` set (markets s)"
  shows "initiate env s req = (s, ErrorReply 400 ''Unknown market'')"
  using assms find_market_None [of m s]
  by (auto simp add: initiate_def Let_def guarded_def attempt_def assert_def error_handler_def
        truthy_def typeof_def strict_eq_def getMarket_JStr)

lemma initiate_bad_wallet:
  assumes "req ''marketId'' = JStr m" "m \<noteq> []"
    and "req ''side'' = JStr ''YES'' \<or> req ''side'' = JStr ''NO''"
    and "amount_accepted (parseAmountSol env (req ''amountSol''))"
    and "m \<in> m_id ` set (markets s)"
    and "\<not> wallet_regex_test (ToString env (req ''wallet''))"
  shows "initiate env s req = (s, ErrorReply 400 ''Invalid Solana wallet'')"
proof -
  from assms(5) find_market_None [of m s]
  have "find (\<lambda>mk. Some (m_id mk) = Some m) (markets s) \<noteq> None" by simp
  with assms show ?thesis
    by (auto simp add: initiate_def Let_def guarded_def attempt_def assert_def error_handler_def
        truthy_def typeof_def strict_eq_def getMarket_JStr)
qed

text \<open>
  C6 (as amended).  An initiate request that violates a client precondition is answered
  with HTTP 400 and leaves the store as it was: the market id is missing or not a
  non-empty string, the side is neither \<open>YES\<close> nor \<open>NO\<close>, the amount does not convert to a
  finite positive number or the value that \<open>parseAmountSol\<close> returns for it (the amount
  rounded to 9 decimals) is below 0.01, the market id is not the id of a market, or the
  wallet fails the base-58 pattern.  When the market id and the side are well-formed and
  the amount is the violation, the message is \<open>Minimum amount is 0.01 SOL\<close>.  The minimum
  is compared with the rounded amount, not with the amount of the request.
\<close>

theorem initiate_rejects_invalid:
  assumes "(\<forall>m. req ''marketId'' = JStr m \<longrightarrow> m = []) \<or>
           (req ''side'' \<noteq> JStr ''YES'' \<and> req ''side'' \<noteq> JStr ''NO'') \<or>
           \<not> isFinite (ToNumber env (req ''amountSol'')) \<or>
           js_le (ToNumber env (req ''amountSol'')) (Fin 0) \<or>
           (\<exists>a. parseAmountSol env (req ''amountSol'') = Some a \<and> \<not> js_ge a lit_0_01) \<or>
           (\<forall>mk \<in> set (markets s). req ''marketId'' \<noteq> JStr (m_id mk)) \<or>
           \<not> wallet_regex_test (ToString env (req ''wallet''))"
  shows "(\<exists>msg. initiate env s req = (s, ErrorReply 400 msg)) \<and>
         ((\<exists>m. req ''marketId'' = JStr m \<and> m \<noteq> []) \<and>
          (req ''side'' = JStr ''YES'' \<or> req ''side'' = JStr ''NO'') \<and>
          (\<forall>a. parseAmountSol env (req ''amountSol'') = Some a \<longrightarrow> \<not> js_ge a lit_0_01)
          \<longrightarrow> initiate env s req = (s, ErrorReply 400 ''Minimum amount is 0.01 SOL''))"
proof (intro conjI impI)
  show "\<exists>msg. initiate env s req = (s, ErrorReply 400 msg)"
  proof (cases "\<forall>m. req ''marketId'' = JStr m \<longrightarrow> m = []")
    case True
    then show ?thesis using initiate_bad_marketId [where req = req] by blast
  next
    case False
    then obtain m where m: "req ''marketId'' = JStr m" "m \<noteq> []" by blast
    show ?thesis
    proof (cases "req ''side'' = JStr ''YES'' \<or> req ''side'' = JStr ''NO''")
      case False
      then show ?thesis using initiate_bad_side [where req = req, OF m] by blast
    next
      case side: True
      show ?thesis
      proof (cases "amount_accepted (parseAmountSol env (req ''amountSol''))")
        case False
        then show ?thesis using initiate_bad_amount [where req = req, OF m side] by blast
      next
        case amount: True
        then obtain a where a: "parseAmountSol env (req ''amountSol'') = Some a" "js_ge a lit_0_01"
          by (auto simp: amount_accepted_iff)
        from a(1) have fin: "isFinite (ToNumber env (req ''amountSol''))"
          "\<not> js_le (ToNumber env (req ''amountSol'')) (Fin 0)"
          by (auto simp: parseAmountSol_def Let_def split: if_splits)
        show ?thesis
        proof (cases "m \<in> m_id ` set (markets s)")
          case False
          then show ?thesis
            using initiate_unknown_market [where req = req, OF m side amount] by blast
        next
          case market: True
          with assms m side a fin
          have "\<not> wallet_regex_test (ToString env (req ''wallet''))" by auto
          then show ?thesis
            using initiate_bad_wallet [where req = req, OF m side amount market] by blast
        qed
      qed
    qed
  qed
next
  assume h: "(\<exists>m. req ''marketId'' = JStr m \<and> m \<noteq> []) \<and>
          (req ''side'' = JStr ''YES'' \<or> req ''side'' = JStr ''NO'') \<and>
          (\<forall>a. parseAmountSol env (req ''amountSol'') = Some a \<longrightarrow> \<not> js_ge a lit_0_01)"
  then obtain m where m: "req ''marketId'' = JStr m" "m \<noteq> []" by blast
  from h have "\<not> amount_accepted (parseAmountSol env (req ''amountSol''))"
    by (auto simp: amount_accepted_iff)
  with h show "initiate env s req = (s, ErrorReply 400 ''Minimum amount is 0.01 SOL'')"
    using initiate_bad_amount [where req = req, OF m] by blast
qed

theorem initiate_rejects_invalid_witness:
  "parseAmountSol bet_env (small_initiate ''amountSol'') = Some lit_0_005 \<and>
   \<not> js_ge lit_0_005 lit_0_01 \<and>
   initiate bet_env seeded small_initiate = (seeded, ErrorReply 400 ''Minimum amount is 0.01 SOL'')"
proof -
  have p: "parseAmountSol bet_env (small_initiate ''amountSol'') = Some lit_0_005"
    by (simp add: small_initiate_def parseAmountSol_0_005)
  have lt: "\<not> js_ge lit_0_005 lit_0_01"
    by (simp add: js_ge_def lit_0_005_value lit_0_01_value)
  have f: "small_initiate ''marketId'' = JStr ''Mk1aaaaaaa''" "small_initiate ''side'' = JStr ''YES''"
    by (simp_all add: small_initiate_def demo_initiate_def)
  from p lt have v: "\<exists>a. parseAmountSol bet_env (small_initiate ''amountSol'') = Some a \<and>
      \<not> js_ge a lit_0_01" by simp
  from initiate_rejects_invalid [where req = small_initiate and env = bet_env and s = seeded] v p lt f
  have "initiate bet_env seeded small_initiate = (seeded, ErrorReply 400 ''Minimum amount is 0.01 SOL'')"
    by simp
  with p lt show ?thesis by simp
qed

lemma buildSolTransferTx_sample:
  "buildSolTransferTx bet_env w (the (TREASURY_PUBKEY bet_env)) a = Inr ''AQAB''"
  by (simp add: buildSolTransferTx_def and_then_def lib_def bet_env_def seed_env_def)

text \<open>
  Counterexample to C6 as stated: in the seeded database, an initiate request with the
  amount \<open>0.009999999999\<close>, which is below the 0.01 minimum, is not rejected.
  \<open>parseAmountSol\<close> rounds the amount to \<open>0.01\<close>, the check \<open>amt >= 0.01\<close> passes, a
  \<open>PENDING\<close> row with the amount \<open>0.01\<close> is inserted, and the reply has HTTP status 200.
\<close>

theorem below_minimum_counterexample:
  "below_min_initiate ''amountSol'' = JNum lit_below_min \<and>
   \<not> js_ge lit_below_min lit_0_01 \<and>
   initiate bet_env seeded below_min_initiate =
     (seeded\<lparr>bets := [demo_bet\<lparr>amount_sol := lit_0_01\<rparr>]\<rparr>, InitiateOk ''Bet1aaaaaa'' ''AQAB'') \<and>
   http_status (snd (initiate bet_env seeded below_min_initiate)) = 200"
proof -
  have f: "below_min_initiate ''amountSol'' = JNum lit_below_min"
    by (simp add: below_min_initiate_def)
  have "\<exists>r. initiate bet_env seeded below_min_initiate =
          (seeded\<lparr>bets := bets seeded @ [demo_bet\<lparr>amount_sol := lit_0_01\<rparr>]\<rparr>, r) \<and>
          ((\<exists>t. r = InitiateOk (nanoid bet_env 0) t) \<or> (\<exists>msg. r = ErrorReply 500 msg))"
    using initiate_inserts [where req = below_min_initiate and env = bet_env and s = seeded
        and m = "''Mk1aaaaaaa''" and sd = "''YES''" and a = lit_0_01 and w = demo_wallet]
      seeded_first_market demo_wallet_ok seeded_facts
    by (auto simp add: below_min_initiate_def demo_initiate_def no_fields_def
        parseAmountSol_below_min js_ge_def lit_0_01_value demo_bet_def bet_env_def seed_env_def)
  then obtain r where r: "initiate bet_env seeded below_min_initiate =
          (seeded\<lparr>bets := [demo_bet\<lparr>amount_sol := lit_0_01\<rparr>]\<rparr>, r)"
    using seeded_facts by auto
  have w: "below_min_initiate ''wallet'' = JStr demo_wallet"
    "below_min_initiate ''marketId'' = JStr ''Mk1aaaaaaa''"
    "below_min_initiate ''side'' = JStr ''YES''"
    by (simp_all add: below_min_initiate_def demo_initiate_def)
  have acc: "amount_accepted (Some lit_0_01)"
    by (simp add: amount_accepted_iff js_ge_def lit_0_01_value)
  from find_market_Some [OF seeded_first_market] obtain mkt
    where mkt: "find (\<lambda>mk. Some (m_id mk) = Some ''Mk1aaaaaaa'') (markets seeded) = Some mkt"
    by blast
  have cb: "createBet bet_env seeded (JStr ''Mk1aaaaaaa'') (JStr ''YES'') lit_0_01
              (JStr demo_wallet) ''solana'' PENDING =
           Inr (seeded\<lparr>bets := bets seeded @
                  [\<lparr>bet_id = nanoid bet_env 0, market_id = ''Mk1aaaaaaa'', side = ''YES'',
                    amount_sol = lit_0_01, wallet = demo_wallet, chain = ''solana'',
                    created_at = Date_now bet_env, status = PENDING, tx = None,
                    proof_text = None\<rparr>]\<rparr>, nanoid bet_env 0)"
    using seeded_first_market seeded_facts
    by (intro createBet_strings) (auto simp: lit_0_01_value)
  have tp: "PublicKey_valid bet_env v" for v
    by (simp add: bet_env_def seed_env_def)
  have "snd (initiate bet_env seeded below_min_initiate) = InitiateOk ''Bet1aaaaaa'' ''AQAB''"
    using mkt demo_wallet_ok
    by (simp add: initiate_def Let_def f w parseAmountSol_below_min acc guarded_def attempt_def
        assert_def truthy_def typeof_def strict_eq_def getMarket_JStr ToString_def cb
        new_PublicKey_def tp buildSolTransferTx_sample)
       (simp add: bet_env_def seed_env_def env_var_def demo_treasury_def)
  with r have "initiate bet_env seeded below_min_initiate =
     (seeded\<lparr>bets := [demo_bet\<lparr>amount_sol := lit_0_01\<rparr>]\<rparr>, InitiateOk ''Bet1aaaaaa'' ''AQAB'')"
    by simp
  with f below_min_less show ?thesis by (simp add: http_status_def)
qed

section \<open>Confirmation from another wallet\<close>

text \<open>
  C7.  A confirm request that names an existing bet whose stored wallet is not the
  supplied wallet is answered with HTTP 400, and the store, with every column of the
  bet, is as before; the message is \<open>Wallet mismatch\<close> when the request carries its three
  fields (without one of them the first assertion of the handler has already rejected
  it, with HTTP 400 as well).
\<close>

theorem confirm_wallet_mismatch:
  assumes "getBet env s (req ''betId'') = Inr (Some b)"
    and "req ''wallet'' \<noteq> JStr (wallet b)"
  shows "(\<exists>msg. confirm env s req = (s, ErrorReply 400 msg)) \<and>
         (truthy (req ''betId'') \<and> truthy (req ''txSignature'') \<and> truthy (req ''wallet'')
            \<longrightarrow> confirm env s req = (s, ErrorReply 400 ''Wallet mismatch''))"
proof (cases "truthy (req ''betId'') \<and> truthy (req ''txSignature'') \<and> truthy (req ''wallet'')")
  case True
  with assms have "confirm env s req = (s, ErrorReply 400 ''Wallet mismatch'')"
    by (simp add: confirm_def Let_def guarded_def attempt_def assert_def error_handler_def
        strict_eq_def split: jsval.splits)
  then show ?thesis by simp
next
  case False
  then have "confirm env s req = (s, ErrorReply 400 ''betId, txSignature, wallet are required'')"
    by (auto simp add: confirm_def Let_def guarded_def assert_def error_handler_def)
  with False show ?thesis by simp
qed

theorem confirm_wallet_mismatch_witness:
  "getBet bet_env pending (other_wallet_confirm ''betId'') = Inr (Some demo_bet) \<and>
   other_wallet_confirm ''wallet'' \<noteq> JStr (wallet demo_bet) \<and>
   confirm bet_env pending other_wallet_confirm = (pending, ErrorReply 400 ''Wallet mismatch'')"
proof -
  have g: "getBet bet_env pending (other_wallet_confirm ''betId'') = Inr (Some demo_bet)"
    by (simp add: getBet_def and_then_def bind_text_def other_wallet_confirm_def pending_eq
        demo_bet_def)
  have w: "other_wallet_confirm ''wallet'' \<noteq> JStr (wallet demo_bet)"
    by (simp add: other_wallet_confirm_def demo_bet_def demo_wallet_def demo_treasury_def)
  have t: "truthy (other_wallet_confirm ''betId'')" "truthy (other_wallet_confirm ''txSignature'')"
    "truthy (other_wallet_confirm ''wallet'')"
    by (simp_all add: other_wallet_confirm_def truthy_def demo_treasury_def)
  from confirm_wallet_mismatch [OF g w] t g w show ?thesis by simp
qed

section \<open>The frame of a failed confirmation\<close>

text \<open>
  C9.  \<open>markBetFailed\<close> sets the status of the addressed bet to \<open>FAILED\<close> and stores the
  transaction reference; the reason is not stored (the result is the same for every
  reason, and no column holds it); every other column of the row, every other row and
  the markets are unchanged.
\<close>

theorem markBetFailed_frame:
  assumes "bind_text env (nullish tx') = Inr t" and "bind_text env ident = Inr i"
  shows "\<exists>s'. (\<forall>reason. markBetFailed env s ident tx' reason = Inr s') \<and>
           markets s' = markets s \<and> foreign_keys s' = foreign_keys s \<and>
           length (bets s') = length (bets s) \<and>
           (\<forall>k < length (bets s).
              bet_id (bets s' ! k) = bet_id (bets s ! k) \<and>
              market_id (bets s' ! k) = market_id (bets s ! k) \<and>
              side (bets s' ! k) = side (bets s ! k) \<and>
              amount_sol (bets s' ! k) = amount_sol (bets s ! k) \<and>
              wallet (bets s' ! k) = wallet (bets s ! k) \<and>
              chain (bets s' ! k) = chain (bets s ! k) \<and>
              created_at (bets s' ! k) = created_at (bets s ! k) \<and>
              proof_text (bets s' ! k) = proof_text (bets s ! k) \<and>
              (if Some (bet_id (bets s ! k)) = i
               then status (bets s' ! k) = FAILED \<and> tx (bets s' ! k) = t
               else bets s' ! k = bets s ! k))"
  using assms by (simp add: markBetFailed_def and_then_def)

theorem markBetFailed_frame_witness:
  "bind_text bet_env (nullish (JStr ''5VERv8NMvzbJMEkV8xnrLkEaWRtSz9CosKDYjCJjBRnb''))
     = Inr (Some ''5VERv8NMvzbJMEkV8xnrLkEaWRtSz9CosKDYjCJjBRnb'') \<and>
   bind_text bet_env (JStr ''Bet1aaaaaa'') = Inr (Some ''Bet1aaaaaa'') \<and>
   markBetFailed bet_env pending (JStr ''Bet1aaaaaa'')
       (JStr ''5VERv8NMvzbJMEkV8xnrLkEaWRtSz9CosKDYjCJjBRnb'') ''TX_NOT_FOUND''
     = Inr (seeded\<lparr>bets := [demo_bet\<lparr>status := FAILED,
          tx := Some ''5VERv8NMvzbJMEkV8xnrLkEaWRtSz9CosKDYjCJjBRnb''\<rparr>]\<rparr>)"
proof -
  have t: "bind_text bet_env (nullish (JStr ''5VERv8NMvzbJMEkV8xnrLkEaWRtSz9CosKDYjCJjBRnb''))
     = Inr (Some ''5VERv8NMvzbJMEkV8xnrLkEaWRtSz9CosKDYjCJjBRnb'')"
    by (simp add: bind_text_def nullish_def)
  have i: "bind_text bet_env (JStr ''Bet1aaaaaa'') = Inr (Some ''Bet1aaaaaa'')"
    by (simp add: bind_text_def)
  from markBetFailed_frame [OF t i, of pending] obtain s'
    where s': "\<forall>reason. markBetFailed bet_env pending (JStr ''Bet1aaaaaa'')
       (JStr ''5VERv8NMvzbJMEkV8xnrLkEaWRtSz9CosKDYjCJjBRnb'') reason = Inr s'"
      and m: "markets s' = markets pending" "foreign_keys s' = foreign_keys pending"
      and l: "length (bets s') = length (bets pending)"
      and r: "\<forall>k < length (bets pending).
              bet_id (bets s' ! k) = bet_id (bets pending ! k) \<and>
              market_id (bets s' ! k) = market_id (bets pending ! k) \<and>
              side (bets s' ! k) = side (bets pending ! k) \<and>
              amount_sol (bets s' ! k) = amount_sol (bets pending ! k) \<and>
              wallet (bets s' ! k) = wallet (bets pending ! k) \<and>
              chain (bets s' ! k) = chain (bets pending ! k) \<and>
              created_at (bets s' ! k) = created_at (bets pending ! k) \<and>
              proof_text (bets s' ! k) = proof_text (bets pending ! k) \<and>
              (if Some (bet_id (bets pending ! k)) = Some ''Bet1aaaaaa''
               then status (bets s' ! k) = FAILED \<and>
                    tx (bets s' ! k) = Some ''5VERv8NMvzbJMEkV8xnrLkEaWRtSz9CosKDYjCJjBRnb''
               else bets s' ! k = bets pending ! k)"
    by blast
  from l obtain b' where b': "bets s' = [b']"
    by (cases "bets s'") (auto simp: pending_eq)
  from r b' have "b' = demo_bet\<lparr>status := FAILED,
          tx := Some ''5VERv8NMvzbJMEkV8xnrLkEaWRtSz9CosKDYjCJjBRnb''\<rparr>"
    by (simp add: pending_eq demo_bet_def)
  with b' m have "s' = seeded\<lparr>bets := [demo_bet\<lparr>status := FAILED,
          tx := Some ''5VERv8NMvzbJMEkV8xnrLkEaWRtSz9CosKDYjCJjBRnb''\<rparr>]\<rparr>"
    by (simp add: pending_eq)
  with s' t i show ?thesis by simp
qed

section \<open>The row inserted before the transaction is built\<close>

text \<open>
  C10.  The initiate handler inserts the \<open>PENDING\<close> row before it looks at the treasury
  configuration and before it asks the chain adapter for the transaction.  For a request
  that passes the client preconditions (with a fresh identifier from the generator), the
  store after the request holds the new \<open>PENDING\<close> row whatever the reply is; the reply is
  the success reply or an HTTP 500 error, and it is the error \<open>TREASURY_PUBKEY not set\<close>
  when the treasury address is unset or empty.
\<close>

theorem initiate_row_persists:
  assumes "req ''marketId'' = JStr m" and "m \<noteq> []"
    and "req ''side'' = JStr sd" and "sd = ''YES'' \<or> sd = ''NO''"
    and "parseAmountSol env (req ''amountSol'') = Some a" and "js_ge a lit_0_01"
    and "m \<in> m_id ` set (markets s)"
    and "req ''wallet'' = JStr w" and "wallet_regex_test w"
    and "nanoid env 0 \<notin> bet_id ` set (bets s)"
  shows "\<exists>r. initiate env s req =
           (s\<lparr>bets := bets s @
                  [\<lparr>bet_id = nanoid env 0, market_id = m, side = sd, amount_sol = a, wallet = w,
                    chain = ''solana'', created_at = Date_now env, status = PENDING, tx = None,
                    proof_text = None\<rparr>]\<rparr>, r) \<and>
           (TREASURY_PUBKEY env = None \<or> TREASURY_PUBKEY env = Some []
              \<longrightarrow> r = ErrorReply 500 ''TREASURY_PUBKEY not set'') \<and>
           ((\<exists>t. r = InitiateOk (nanoid env 0) t) \<or> (\<exists>msg. r = ErrorReply 500 msg))"
proof -
  from initiate_inserts [where req = req, OF assms] obtain r
    where r: "initiate env s req =
           (s\<lparr>bets := bets s @
                  [\<lparr>bet_id = nanoid env 0, market_id = m, side = sd, amount_sol = a, wallet = w,
                    chain = ''solana'', created_at = Date_now env, status = PENDING, tx = None,
                    proof_text = None\<rparr>]\<rparr>, r)"
      and t: "\<not> truthy (env_var (TREASURY_PUBKEY env))
              \<longrightarrow> r = ErrorReply 500 ''TREASURY_PUBKEY not set''"
      and k: "(\<exists>t. r = InitiateOk (nanoid env 0) t) \<or> (\<exists>msg. r = ErrorReply 500 msg)"
    by blast
  from t have "TREASURY_PUBKEY env = None \<or> TREASURY_PUBKEY env = Some []
              \<longrightarrow> r = ErrorReply 500 ''TREASURY_PUBKEY not set''"
    by (auto simp: truthy_def env_var_def)
  with r k show ?thesis by blast
qed

theorem initiate_row_persists_witness:
  "initiate no_treasury_env seeded demo_initiate =
     (seeded\<lparr>bets := [demo_bet]\<rparr>, ErrorReply 500 ''TREASURY_PUBKEY not set'')"
proof -
  have e: "TREASURY_PUBKEY no_treasury_env = None" "nanoid no_treasury_env 0 = ''Bet1aaaaaa''"
    "Date_now no_treasury_env = 1700000000000"
    by (simp_all add: no_treasury_env_def bet_env_def seed_env_def)
  have "\<exists>r. initiate no_treasury_env seeded demo_initiate =
           (seeded\<lparr>bets := bets seeded @
                  [\<lparr>bet_id = nanoid no_treasury_env 0, market_id = ''Mk1aaaaaaa'', side = ''YES'',
                    amount_sol = Fin 1, wallet = demo_wallet,
                    chain = ''solana'', created_at = Date_now no_treasury_env, status = PENDING,
                    tx = None, proof_text = None\<rparr>]\<rparr>, r) \<and>
           (TREASURY_PUBKEY no_treasury_env = None \<or> TREASURY_PUBKEY no_treasury_env = Some []
              \<longrightarrow> r = ErrorReply 500 ''TREASURY_PUBKEY not set'') \<and>
           ((\<exists>t. r = InitiateOk (nanoid no_treasury_env 0) t) \<or> (\<exists>msg. r = ErrorReply 500 msg))"
    using seeded_first_market demo_wallet_ok seeded_facts
    by (intro initiate_row_persists)
       (simp_all add: demo_initiate_def no_fields_def parseAmountSol_1 js_ge_def lit_0_01_value e)
  then show ?thesis
    using seeded_facts by (auto simp: e demo_bet_def)
qed

section \<open>Seeding\<close>

lemma insertMany_result:
  "insertMany env now k rows ms = Inr ms' \<Longrightarrow> ms' = ms @ seed_rows env now k rows"
proof (induction rows arbitrary: k ms)
  case Nil
  then show ?case by (simp add: seed_rows_def)
next
  case (Cons row rows)
  obtain name category yes no where row: "row = (name, category, yes, no)"
    by (cases row) auto
  from Cons.prems row
  have "insertMany env now (Suc k) rows
          (ms @ [\<lparr>m_id = nanoid env k, m_name = name, m_category = category, m_yes = yes,
                   m_no = no, m_status = ''LIVE'', m_created_at = now\<rparr>]) = Inr ms'"
    by (simp add: Let_def split: if_splits)
  from Cons.IH [OF this] row show ?case
    by (simp add: seed_rows_def upt_conv_Cons del: upt_Suc)
qed

lemma insertMany_succeeds:
  assumes "distinct (map (nanoid env) [k..<k + length rows])"
    and "\<forall>j \<in> {k..<k + length rows}. nanoid env j \<notin> m_id ` set ms"
  shows "\<exists>ms'. insertMany env now k rows ms = Inr ms'"
  using assms
proof (induction rows arbitrary: k ms)
  case Nil
  then show ?case by simp
next
  case (Cons row rows)
  obtain name category yes no where row: "row = (name, category, yes, no)"
    by (cases row) auto
  let ?m = "\<lparr>m_id = nanoid env k, m_name = name, m_category = category, m_yes = yes,
                   m_no = no, m_status = ''LIVE'', m_created_at = now\<rparr>"
  have up: "[k..<k + length (row # rows)] = k # [Suc k..<Suc k + length rows]"
    by (simp add: upt_conv_Cons del: upt_Suc)
  from Cons.prems(1) have d: "distinct (map (nanoid env) [Suc k..<Suc k + length rows])"
    and nk: "nanoid env k \<notin> nanoid env ` set [Suc k..<Suc k + length rows]"
    unfolding up by auto
  from Cons.prems(2) have fresh: "nanoid env k \<notin> m_id ` set ms" by simp
  have "\<forall>j \<in> {Suc k..<Suc k + length rows}. nanoid env j \<notin> m_id ` set (ms @ [?m])"
  proof
    fix j assume j: "j \<in> {Suc k..<Suc k + length rows}"
    with Cons.prems(2) have "nanoid env j \<notin> m_id ` set ms" by simp
    moreover from j have "j \<in> set [Suc k..<Suc k + length rows]"
      by (simp only: set_upt)
    then have "nanoid env j \<in> nanoid env ` set [Suc k..<Suc k + length rows]"
      by (rule imageI)
    with nk have "nanoid env j \<noteq> nanoid env k" by metis
    ultimately show "nanoid env j \<notin> m_id ` set (ms @ [?m])" by simp
  qed
  from Cons.IH [OF d this] obtain ms' where "insertMany env now (Suc k) rows (ms @ [?m]) = Inr ms'"
    by blast
  with fresh row show ?case by (simp add: Let_def)
qed

lemma insertMany_distinct:
  "insertMany env now k rows ms = Inr ms' \<Longrightarrow> distinct (map m_id ms) \<Longrightarrow> distinct (map m_id ms')"
proof (induction rows arbitrary: k ms)
  case Nil
  then show ?case by simp
next
  case (Cons row rows)
  obtain name category yes no where row: "row = (name, category, yes, no)"
    by (cases row) auto
  let ?m = "\<lparr>m_id = nanoid env k, m_name = name, m_category = category, m_yes = yes,
                   m_no = no, m_status = ''LIVE'', m_created_at = now\<rparr>"
  from Cons.prems(1) row have fresh: "nanoid env k \<notin> set (map m_id ms)"
    and rest: "insertMany env now (Suc k) rows (ms @ [?m]) = Inr ms'"
    by (simp_all add: Let_def split: if_splits)
  from fresh Cons.prems(2) have "distinct (map m_id (ms @ [?m]))" by simp
  with Cons.IH [OF rest] show ?case by blast
qed

lemma seed_rows_ids:
  "map m_id (seed_rows env now k rows) = map (nanoid env) [k..<k + length rows]"
proof -
  have "map m_id (seed_rows env now k rows) =
          map (nanoid env) (map fst (zip [k..<k + length rows] rows))"
    unfolding seed_rows_def map_map by (rule map_cong) auto
  then show ?thesis by simp
qed

lemma length_catalogue: "length catalogue = 20"
  by (simp add: catalogue_def)

text \<open>
  C8.  \<open>seedIfEmpty\<close> is idempotent.  With a market in the table it returns the store
  unchanged.  On an empty table, with 20 distinct identifiers from the generator, it
  inserts the 20 rows of the catalogue; when two identifiers collide the transaction is
  rolled back and the call throws, nothing inserted.  After a call that returned, any
  further call returns the same store: the market count stays what the first call left.
  The bets are never touched.
\<close>

theorem seedIfEmpty_idempotent:
  "(markets s \<noteq> [] \<longrightarrow> seedIfEmpty env s = Inr s) \<and>
   (markets s = [] \<and> distinct (map (nanoid env) [0..<20]) \<longrightarrow>
      seedIfEmpty env s = Inr (s\<lparr>markets := seed_rows env (Date_now env) 0 catalogue\<rparr>) \<and>
      length (seed_rows env (Date_now env) 0 catalogue) = 20) \<and>
   (markets s = [] \<and> \<not> distinct (map (nanoid env) [0..<20]) \<longrightarrow>
      (\<exists>e. seedIfEmpty env s = Inl e)) \<and>
   (\<forall>s1. seedIfEmpty env s = Inr s1 \<longrightarrow>
      (\<forall>env'. seedIfEmpty env' s1 = Inr s1) \<and> bets s1 = bets s)"
proof (intro conjI impI allI)
  assume "markets s \<noteq> []"
  then show "seedIfEmpty env s = Inr s" by (simp add: seedIfEmpty_def)
next
  assume h: "markets s = [] \<and> distinct (map (nanoid env) [0..<20])"
  then have "\<exists>ms'. insertMany env (Date_now env) 0 catalogue [] = Inr ms'"
    by (intro insertMany_succeeds) (simp_all add: length_catalogue)
  then obtain ms' where ms': "insertMany env (Date_now env) 0 catalogue [] = Inr ms'" by blast
  from insertMany_result [OF this] have "ms' = seed_rows env (Date_now env) 0 catalogue" by simp
  with ms' h show "seedIfEmpty env s = Inr (s\<lparr>markets := seed_rows env (Date_now env) 0 catalogue\<rparr>)"
    by (simp add: seedIfEmpty_def)
next
  show "length (seed_rows env (Date_now env) 0 catalogue) = 20"
    by (simp add: seed_rows_def length_catalogue)
next
  assume h: "markets s = [] \<and> \<not> distinct (map (nanoid env) [0..<20])"
  show "\<exists>e. seedIfEmpty env s = Inl e"
  proof (cases "insertMany env (Date_now env) 0 catalogue []")
    case (Inl e)
    with h show ?thesis by (simp add: seedIfEmpty_def)
  next
    case (Inr ms')
    from insertMany_distinct [OF Inr] insertMany_result [OF Inr]
    have "distinct (map m_id (seed_rows env (Date_now env) 0 catalogue))" by simp
    with h show ?thesis by (simp add: seed_rows_ids length_catalogue)
  qed
next
  fix s1 env'
  assume r: "seedIfEmpty env s = Inr s1"
  show "seedIfEmpty env' s1 = Inr s1"
  proof (cases "markets s = []")
    case False
    with r have "s1 = s" by (simp add: seedIfEmpty_def)
    with False show ?thesis by (simp add: seedIfEmpty_def)
  next
    case True
    with r obtain ms' where ms': "insertMany env (Date_now env) 0 catalogue [] = Inr ms'"
      and s1: "s1 = s\<lparr>markets := ms'\<rparr>"
      by (auto simp: seedIfEmpty_def split: sum.splits)
    from insertMany_result [OF ms'] have "length ms' = 20"
      by (simp add: seed_rows_def length_catalogue)
    with s1 have "markets s1 \<noteq> []" by auto
    then show ?thesis by (simp add: seedIfEmpty_def)
  qed
next
  fix s1
  assume "seedIfEmpty env s = Inr s1"
  then show "bets s1 = bets s"
    by (auto simp: seedIfEmpty_def Let_def split: if_splits sum.splits)
qed


theorem seedIfEmpty_idempotent_witness:
  "markets db_open = [] \<and> distinct (map (nanoid seed_env) [0..<20]) \<and>
   seedIfEmpty seed_env db_open = Inr seeded \<and> length (markets seeded) = 20 \<and>
   seedIfEmpty bet_env seeded = Inr seeded"
proof -
  have e: "markets db_open = []" by (simp add: db_open_def)
  have "map (nanoid seed_env) [0..<20] = demo_ids"
    by (simp add: seed_env_def demo_ids_def upt_conv_Cons)
  then have d: "distinct (map (nanoid seed_env) [0..<20])"
    by (simp add: demo_ids_def)
  from seedIfEmpty_idempotent [of db_open seed_env] e d
  have r: "seedIfEmpty seed_env db_open =
             Inr (db_open\<lparr>markets := seed_rows seed_env (Date_now seed_env) 0 catalogue\<rparr>)"
    and l: "length (seed_rows seed_env (Date_now seed_env) 0 catalogue) = 20"
    and again: "\<forall>s1. seedIfEmpty seed_env db_open = Inr s1 \<longrightarrow>
      (\<forall>env'. seedIfEmpty env' s1 = Inr s1) \<and> bets s1 = bets db_open"
    by simp_all
  from r have s: "seeded = db_open\<lparr>markets := seed_rows seed_env (Date_now seed_env) 0 catalogue\<rparr>"
    by (simp add: seeded_def step_def attempt_def)
  from again r s have a: "seedIfEmpty bet_env seeded = Inr seeded" by simp
  from r s have b: "seedIfEmpty seed_env db_open = Inr seeded" by simp
  have c: "length (markets seeded) = 20" by (simp add: s l)
  from e d b c a show ?thesis by simp
qed

section \<open>What a request can do to the store\<close>

lemma guarded_fst: "fst k = s \<Longrightarrow> fst (guarded a s k) = s"
  by (cases a) (auto simp: guarded_def)

lemma attempt_fst: "(\<And>v. fst (k v) = s) \<Longrightarrow> fst (attempt x s k) = s"
  by (cases x) (auto simp: attempt_def)

lemma initiate_checked:
  assumes "req ''marketId'' = JStr m" and "m \<noteq> []"
    and "req ''side'' = JStr ''YES'' \<or> req ''side'' = JStr ''NO''"
    and "parseAmountSol env (req ''amountSol'') = Some a" and "js_ge a lit_0_01"
    and "m \<in> m_id ` set (markets s)"
    and "wallet_regex_test (ToString env (req ''wallet''))"
  shows "initiate env s req =
           attempt (createBet env s (JStr m) (req ''side'') a (req ''wallet'') ''solana'' PENDING) s
             (\<lambda>(s', betId).
                guarded (assert (truthy (env_var (TREASURY_PUBKEY env)))
                           ''TREASURY_PUBKEY not set'' 500) s'
               (guarded (new_PublicKey env (env_var (TREASURY_PUBKEY env))) s'
               (attempt (buildSolTransferTx env (req ''wallet'') (the (TREASURY_PUBKEY env)) a) s'
                  (\<lambda>txBase64. (s', InitiateOk betId txBase64)))))"
proof -
  from assms(5) have acc: "amount_accepted (Some a)"
    by (simp add: amount_accepted_iff)
  from find_market_Some [OF assms(6)] obtain mkt
    where mkt: "find (\<lambda>mk. Some (m_id mk) = Some m) (markets s) = Some mkt" by blast
  have g: "\<And>c msg st k. c \<Longrightarrow> guarded (assert c msg st) s k = k"
    by (simp add: guarded_def assert_def)
  have t: "truthy (JStr m) \<and> typeof (JStr m) = ''string''"
    using assms(2) by (simp add: truthy_def typeof_def)
  have sd: "strict_eq (req ''side'') (JStr ''YES'') \<or> strict_eq (req ''side'') (JStr ''NO'')"
    using assms(3) by (auto simp: strict_eq_def)
  have gm: "attempt (getMarket env s (JStr m)) s = (\<lambda>k. k (Some mkt))"
    using mkt by (simp add: getMarket_JStr attempt_def fun_eq_iff)
  show ?thesis
    unfolding initiate_def Let_def assms(1)
    by (simp only: g [OF t] g [OF sd] g [OF acc] gm g [OF assms(7)] assms(4) option.sel)
       (simp add: g)
qed

lemma initiate_shape:
  assumes "initiate env s req = (s', r)"
  shows "s' = s \<or>
         (\<exists>row. s' = s\<lparr>bets := bets s @ [row]\<rparr> \<and> status row = PENDING \<and>
            chain row = ''solana'' \<and> market_id row \<in> m_id ` set (markets s) \<and>
            parseAmountSol env (req ''amountSol'') = Some (amount_sol row) \<and>
            js_ge (amount_sol row) lit_0_01)"
proof (cases "(\<exists>m. req ''marketId'' = JStr m \<and> m \<noteq> [] \<and> m \<in> m_id ` set (markets s)) \<and>
    (req ''side'' = JStr ''YES'' \<or> req ''side'' = JStr ''NO'') \<and>
    (\<exists>a. parseAmountSol env (req ''amountSol'') = Some a \<and> js_ge a lit_0_01) \<and>
    wallet_regex_test (ToString env (req ''wallet''))")
  case violated: False
  have "\<exists>msg. initiate env s req = (s, ErrorReply 400 msg)"
  proof (cases "\<forall>m. req ''marketId'' = JStr m \<longrightarrow> m = []")
    case True
    then show ?thesis using initiate_bad_marketId [where req = req] by blast
  next
    case nonempty: False
    then obtain m where m: "req ''marketId'' = JStr m" "m \<noteq> []" by blast
    show ?thesis
    proof (cases "req ''side'' = JStr ''YES'' \<or> req ''side'' = JStr ''NO''")
      case False
      then show ?thesis using initiate_bad_side [where req = req, OF m] by blast
    next
      case side: True
      show ?thesis
      proof (cases "amount_accepted (parseAmountSol env (req ''amountSol''))")
        case False
        then show ?thesis using initiate_bad_amount [where req = req, OF m side] by blast
      next
        case amount: True
        show ?thesis
        proof (cases "m \<in> m_id ` set (markets s)")
          case False
          then show ?thesis
            using initiate_unknown_market [where req = req, OF m side amount] by blast
        next
          case market: True
          with violated m side amount
          have "\<not> wallet_regex_test (ToString env (req ''wallet''))"
            by (auto simp: amount_accepted_iff)
          then show ?thesis
            using initiate_bad_wallet [where req = req, OF m side amount market] by blast
        qed
      qed
    qed
  qed
  with assms show ?thesis by auto
next
  case True
  then obtain m a where m: "req ''marketId'' = JStr m" "m \<noteq> []"
    and mk: "m \<in> m_id ` set (markets s)"
    and sd: "req ''side'' = JStr ''YES'' \<or> req ''side'' = JStr ''NO''"
    and a: "parseAmountSol env (req ''amountSol'') = Some a" "js_ge a lit_0_01"
    and w: "wallet_regex_test (ToString env (req ''wallet''))"
    by blast
  note eq = initiate_checked [where req = req, OF m sd a mk w]
  show ?thesis
  proof (cases "createBet env s (JStr m) (req ''side'') a (req ''wallet'') ''solana'' PENDING")
    case (Inl e)
    with eq assms show ?thesis by (simp add: attempt_def)
  next
    case (Inr v)
    obtain s1 k where v: "v = (s1, k)" by (cases v) auto
    have "fst (initiate env s req) = s1"
      unfolding eq Inr v
      by (simp add: attempt_def [of "Inr (s1, k)"] guarded_fst attempt_fst)
    with assms have s1: "s' = s1" by simp
    from createBet_row [OF Inr [unfolded v]] obtain row
      where row: "s1 = s\<lparr>bets := bets s @ [row]\<rparr>"
        "bind_text env (JStr m) = Inr (Some (market_id row))"
        "amount_sol row = a" "chain row = ''solana''" "status row = PENDING"
      by blast
    from row(2) have "market_id row = m" by (simp add: bind_text_def)
    with s1 row mk a show ?thesis by auto
  qed
qed

lemma evm_receipt_shape:
  assumes "evm_receipt env s req = (s', r)"
  shows "s' = s \<or>
         (\<exists>row. s' = s\<lparr>bets := bets s @ [row]\<rparr> \<and> status row = RECEIPT_ONLY \<and>
            chain row = ''evm'' \<and> amount_sol row = ToNumber env (req ''amount'') \<and>
            amount_sol row \<noteq> NaN \<and>
            (foreign_keys s \<longrightarrow> market_id row \<in> m_id ` set (markets s)))"
proof (cases "s' = s")
  case True
  then show ?thesis by simp
next
  case False
  with assms obtain s1 k
    where cb: "createBet env s (req ''marketId'') (req ''side'') (ToNumber env (req ''amount''))
                 (req ''address'') ''evm'' RECEIPT_ONLY = Inr (s1, k)" and s1: "s' = s1"
    by (auto simp: evm_receipt_def Let_def guarded_def attempt_def
        split: option.splits sum.splits)
  from createBet_row [OF cb] obtain row
    where "s1 = s\<lparr>bets := bets s @ [row]\<rparr>" "amount_sol row = ToNumber env (req ''amount'')"
      "ToNumber env (req ''amount'') \<noteq> NaN" "chain row = ''evm''" "status row = RECEIPT_ONLY"
      "foreign_keys s \<longrightarrow> market_id row \<in> m_id ` set (markets s)"
    by blast
  with s1 show ?thesis by auto
qed

lemma confirm_shape:
  assumes "confirm env s req = (s', r)"
  shows "s' = s \<or>
         (\<exists>i t p. bind_text env (req ''betId'') = Inr i \<and>
            (s' = s\<lparr>bets := map (\<lambda>b. if Some (bet_id b) = i
                                       then b\<lparr>status := CONFIRMED, tx := t, proof_text := p\<rparr>
                                       else b) (bets s)\<rparr> \<or>
             s' = s\<lparr>bets := map (\<lambda>b. if Some (bet_id b) = i
                                       then b\<lparr>status := FAILED, tx := t\<rparr>
                                       else b) (bets s)\<rparr>))"
  using assms
  by (auto simp: confirm_def Let_def guarded_def attempt_def markBetFailed_def
      markBetConfirmed_def and_then_def
      split: option.splits sum.splits verdict.splits)

lemma seed_shape:
  assumes "step env SeedReq s = (s', r)"
  shows "bets s' = bets s \<and> foreign_keys s' = foreign_keys s \<and>
         set (markets s) \<subseteq> set (markets s')"
  using assms
  by (auto simp: step_def attempt_def seedIfEmpty_def Let_def split: sum.splits if_splits)


section \<open>Verification of a confirmation\<close>

lemma getBet_JStr:
  "getBet env s (JStr i) = Inr (find (\<lambda>b. bet_id b = i) (bets s))"
  by (simp add: getBet_def and_then_def bind_text_def)

lemma confirm_outcome:
  assumes i: "req ''betId'' = JStr i" "i \<noteq> []"
    and g: "req ''txSignature'' = JStr g" "g \<noteq> []"
    and w: "req ''wallet'' = JStr w" "w \<noteq> []"
    and b: "find (\<lambda>b. bet_id b = i) (bets s) = Some b" "wallet b = w"
  shows "confirm env s req =
     (case verifySolTransfer env (JStr g) (JStr w) (env_var (TREASURY_PUBKEY env))
             (Math_round (fmul (amount_sol b) LAMPORTS_PER_SOL)) of
        Inl e \<Rightarrow> (s, error_handler e)
      | Inr VerifiedOk \<Rightarrow>
          (s\<lparr>bets := map (\<lambda>x. if bet_id x = i
                              then x\<lparr>status := CONFIRMED, tx := Some g,
                                     proof_text := Some (''bet:'' @ i @ '':sig:'' @ g)\<rparr>
                              else x) (bets s)\<rparr>,
           ConfirmOk (JStr i) (JStr g) (''bet:'' @ i @ '':sig:'' @ g))
      | Inr (VerifiedNot reason) \<Rightarrow>
          (s\<lparr>bets := map (\<lambda>x. if bet_id x = i then x\<lparr>status := FAILED, tx := Some g\<rparr> else x)
                         (bets s)\<rparr>,
           ConfirmFailed reason))"
  using assms
  by (simp add: confirm_def Let_def guarded_def attempt_def assert_def truthy_def getBet_JStr
      strict_eq_def markBetFailed_def markBetConfirmed_def and_then_def bind_text_def nullish_def
      ToString_def split: sum.splits verdict.splits)

text \<open>
  C2.  A confirm request that carries its three fields as strings, for an existing bet
  whose stored wallet is the supplied one: the expected amount is
  \<open>Math.round(amount_sol * LAMPORTS_PER_SOL)\<close> of the stored amount; the first transfer
  instruction of the fetched transaction is compared by \<open>===\<close> with the caller's wallet,
  the configured treasury address and the expected amount.  When all three are equal the
  bet becomes \<open>CONFIRMED\<close>, with the transaction reference and the proof string
  \<open>bet:<id>:sig:<reference>\<close> stored.  When the transaction is not found, has no transfer
  instruction, or one of the three differs, the bet becomes \<open>FAILED\<close>, with the transaction
  reference stored, and the reply gives the reason \<open>TX_NOT_FOUND\<close>, \<open>NO_TRANSFER_IN_TX\<close>
  or the \<open>MISMATCH\<close> text that names the observed source, destination and amount.  (A
  lookup that throws is no verification result: the error reply, and the store as before.)
\<close>

theorem confirm_verification:
  assumes "req ''betId'' = JStr i" and "i \<noteq> []"
    and "req ''txSignature'' = JStr g" and "g \<noteq> []"
    and "req ''wallet'' = JStr w" and "w \<noteq> []"
    and "find (\<lambda>b. bet_id b = i) (bets s) = Some b" and "wallet b = w"
  shows
    "(getParsedTransaction env (JStr g) = RpcNull \<longrightarrow>
        confirm env s req =
          (s\<lparr>bets := map (\<lambda>x. if bet_id x = i then x\<lparr>status := FAILED, tx := Some g\<rparr> else x)
                         (bets s)\<rparr>,
           ConfirmFailed ''TX_NOT_FOUND'')) \<and>
     (\<forall>msg. getParsedTransaction env (JStr g) = RpcError msg \<longrightarrow>
        confirm env s req = (s, error_handler (LibError msg))) \<and>
     (\<forall>ixs. getParsedTransaction env (JStr g) = RpcParsed ixs \<and> find is_transfer ixs = None \<longrightarrow>
        confirm env s req =
          (s\<lparr>bets := map (\<lambda>x. if bet_id x = i then x\<lparr>status := FAILED, tx := Some g\<rparr> else x)
                         (bets s)\<rparr>,
           ConfirmFailed ''NO_TRANSFER_IN_TX'')) \<and>
     (\<forall>ixs ix. getParsedTransaction env (JStr g) = RpcParsed ixs \<and>
          find is_transfer ixs = Some ix \<longrightarrow>
        confirm env s req =
          (if strict_eq (info_source ix) (JStr w) \<and>
              strict_eq (info_destination ix) (env_var (TREASURY_PUBKEY env)) \<and>
              num_eq (ToNumber env (info_lamports ix))
                     (Math_round (fmul (amount_sol b) LAMPORTS_PER_SOL))
           then (s\<lparr>bets := map (\<lambda>x. if bet_id x = i
                              then x\<lparr>status := CONFIRMED, tx := Some g,
                                     proof_text := Some (''bet:'' @ i @ '':sig:'' @ g)\<rparr>
                              else x) (bets s)\<rparr>,
                 ConfirmOk (JStr i) (JStr g) (''bet:'' @ i @ '':sig:'' @ g))
           else (s\<lparr>bets := map (\<lambda>x. if bet_id x = i then x\<lparr>status := FAILED, tx := Some g\<rparr>
                                       else x) (bets s)\<rparr>,
                 ConfirmFailed (''MISMATCH from='' @ ToString env (info_source ix) @
                    '' to='' @ ToString env (info_destination ix) @
                    '' lamports='' @ NumberToString env (ToNumber env (info_lamports ix))))))"
  unfolding confirm_outcome [where req = req, OF assms]
  by (auto simp: verifySolTransfer_def check_transfer_def Let_def)


section \<open>The sample confirmation\<close>

lemma pending_find: "find (\<lambda>b. bet_id b = ''Bet1aaaaaa'') (bets pending) = Some demo_bet"
  by (simp add: pending_eq demo_bet_def)

lemma demo_confirm_fields:
  "demo_confirm ''betId'' = JStr ''Bet1aaaaaa''"
  "demo_confirm ''txSignature'' = JStr demo_signature"
  "demo_confirm ''wallet'' = JStr demo_wallet"
  "demo_signature \<noteq> []" "demo_wallet \<noteq> []" "wallet demo_bet = demo_wallet"
  by (simp_all add: demo_confirm_def demo_signature_def demo_wallet_def demo_bet_def)

lemma paid_verdict:
  "verifySolTransfer paid_env (JStr demo_signature) (JStr demo_wallet)
     (env_var (TREASURY_PUBKEY paid_env)) (Fin 1000000000) = Inr VerifiedOk"
  by (simp add: verifySolTransfer_def paid_env_def bet_env_def seed_env_def is_transfer_def
      demo_transfer_def strict_eq_def check_transfer_def Let_def env_var_def ToNumber_def
      num_eq_def)

lemma confirmed_step:
  "step paid_env (ConfirmReq demo_confirm) pending =
     (seeded\<lparr>bets := [confirmed_bet]\<rparr>,
      ConfirmOk (JStr ''Bet1aaaaaa'') (JStr demo_signature) (''bet:Bet1aaaaaa:sig:'' @ demo_signature))"
  unfolding step_def request.case
    confirm_outcome [where req = demo_confirm and env = paid_env and s = pending,
      OF demo_confirm_fields(1) _ demo_confirm_fields(2) demo_confirm_fields(4)
         demo_confirm_fields(3) demo_confirm_fields(5) pending_find demo_confirm_fields(6),
      simplified]
  by (simp add: pending_eq demo_bet_def lamports_1 paid_verdict confirmed_bet_def)

lemma confirmed_eq: "confirmed = seeded\<lparr>bets := [confirmed_bet]\<rparr>"
  by (simp add: confirmed_def confirmed_step)

lemma reachable_confirmed: "reachable confirmed"
  unfolding confirmed_def by (rule reachable.advance [OF reachable_pending])


section \<open>The bet lifecycle\<close>

lemma step_shape:
  assumes "step env r s = (s', rep)"
  shows "foreign_keys s' = foreign_keys s \<and> set (markets s) \<subseteq> set (markets s') \<and>
         (bets s' = bets s \<or>
          (markets s' = markets s \<and>
           (\<exists>row. bets s' = bets s @ [row] \<and>
              (foreign_keys s \<longrightarrow> market_id row \<in> m_id ` set (markets s)))) \<or>
          (markets s' = markets s \<and>
           (\<exists>i f. (\<exists>req. r = ConfirmReq req \<and> bind_text env (req ''betId'') = Inr i) \<and>
              bets s' = map (\<lambda>b. if Some (bet_id b) = i then f b else b) (bets s) \<and>
              (\<forall>b. bet_id (f b) = bet_id b \<and> market_id (f b) = market_id b \<and>
                   (status (f b) = CONFIRMED \<or> status (f b) = FAILED)))))"
proof (cases r)
  case SeedReq
  with assms seed_shape [of env s s' rep] show ?thesis by simp
next
  case (InitiateReq req)
  with assms have "initiate env s req = (s', rep)" by (simp add: step_def)
  from initiate_shape [OF this] show ?thesis by auto
next
  case (EvmReceiptReq req)
  with assms have "evm_receipt env s req = (s', rep)" by (simp add: step_def)
  from evm_receipt_shape [OF this] show ?thesis by auto
next
  case (ConfirmReq req)
  with assms have "confirm env s req = (s', rep)" by (simp add: step_def)
  from confirm_shape [OF this] consider "s' = s"
    | i t p where "bind_text env (req ''betId'') = Inr i"
        "s' = s\<lparr>bets := map (\<lambda>b. if Some (bet_id b) = i
                                   then b\<lparr>status := CONFIRMED, tx := t, proof_text := p\<rparr>
                                   else b) (bets s)\<rparr>"
    | i t where "bind_text env (req ''betId'') = Inr i"
        "s' = s\<lparr>bets := map (\<lambda>b. if Some (bet_id b) = i
                                   then b\<lparr>status := FAILED, tx := t\<rparr>
                                   else b) (bets s)\<rparr>"
    by blast
  then show ?thesis
  proof cases
    case 1
    then show ?thesis by simp
  next
    case 2
    let ?f = "\<lambda>b. b\<lparr>status := CONFIRMED, tx := t, proof_text := p\<rparr>"
    have "(\<exists>req. r = ConfirmReq req \<and> bind_text env (req ''betId'') = Inr i) \<and>
              bets s' = map (\<lambda>b. if Some (bet_id b) = i then ?f b else b) (bets s) \<and>
              (\<forall>b. bet_id (?f b) = bet_id b \<and> market_id (?f b) = market_id b \<and>
                   (status (?f b) = CONFIRMED \<or> status (?f b) = FAILED))"
      using 2 ConfirmReq by simp
    then have "\<exists>i f. (\<exists>req. r = ConfirmReq req \<and> bind_text env (req ''betId'') = Inr i) \<and>
              bets s' = map (\<lambda>b. if Some (bet_id b) = i then f b else b) (bets s) \<and>
              (\<forall>b. bet_id (f b) = bet_id b \<and> market_id (f b) = market_id b \<and>
                   (status (f b) = CONFIRMED \<or> status (f b) = FAILED))"
      by - (rule exI [of _ i], rule exI [of _ ?f], assumption)
    with 2 show ?thesis by simp
  next
    case 3
    let ?f = "\<lambda>b. b\<lparr>status := FAILED, tx := t\<rparr>"
    have "(\<exists>req. r = ConfirmReq req \<and> bind_text env (req ''betId'') = Inr i) \<and>
              bets s' = map (\<lambda>b. if Some (bet_id b) = i then ?f b else b) (bets s) \<and>
              (\<forall>b. bet_id (?f b) = bet_id b \<and> market_id (?f b) = market_id b \<and>
                   (status (?f b) = CONFIRMED \<or> status (?f b) = FAILED))"
      using 3 ConfirmReq by simp
    then have "\<exists>i f. (\<exists>req. r = ConfirmReq req \<and> bind_text env (req ''betId'') = Inr i) \<and>
              bets s' = map (\<lambda>b. if Some (bet_id b) = i then f b else b) (bets s) \<and>
              (\<forall>b. bet_id (f b) = bet_id b \<and> market_id (f b) = market_id b \<and>
                   (status (f b) = CONFIRMED \<or> status (f b) = FAILED))"
      by - (rule exI [of _ i], rule exI [of _ ?f], assumption)
    with 3 show ?thesis by simp
  qed
qed

text \<open>
  C1 (as amended).  No operation sets the status of a bet back to \<open>PENDING\<close>: after any
  operation every bet row that existed before is at its place with its id, and its
  status is the one it had, or is \<open>CONFIRMED\<close> or \<open>FAILED\<close> and the operation is a confirm
  request for that bet id.  (The theorem does not say that \<open>CONFIRMED\<close>, \<open>FAILED\<close> and
  \<open>RECEIPT_ONLY\<close> are terminal: they are not, see the counterexample.)
\<close>

theorem status_transitions:
  assumes "step env r s = (s', rep)"
  shows "length (bets s) \<le> length (bets s') \<and>
         (\<forall>k < length (bets s).
            bet_id (bets s' ! k) = bet_id (bets s ! k) \<and>
            (status (bets s' ! k) = status (bets s ! k) \<or>
             ((status (bets s' ! k) = CONFIRMED \<or> status (bets s' ! k) = FAILED) \<and>
              (\<exists>req. r = ConfirmReq req \<and>
                 bind_text env (req ''betId'') = Inr (Some (bet_id (bets s ! k)))))))"
proof -
  from step_shape [OF assms] consider "bets s' = bets s"
    | row where "bets s' = bets s @ [row]"
    | i f where "\<exists>req. r = ConfirmReq req \<and> bind_text env (req ''betId'') = Inr i"
        "bets s' = map (\<lambda>b. if Some (bet_id b) = i then f b else b) (bets s)"
        "\<forall>b. bet_id (f b) = bet_id b \<and> market_id (f b) = market_id b \<and>
             (status (f b) = CONFIRMED \<or> status (f b) = FAILED)"
    by blast
  then show ?thesis
  proof cases
    case 1
    then show ?thesis by simp
  next
    case 2
    then show ?thesis by (simp add: nth_append)
  next
    case 3
    show ?thesis
    proof (intro conjI allI impI)
      show "length (bets s) \<le> length (bets s')" using 3(2) by simp
    next
      fix k assume k: "k < length (bets s)"
      show "bet_id (bets s' ! k) = bet_id (bets s ! k)" using 3(2,3) k by simp
      show "status (bets s' ! k) = status (bets s ! k) \<or>
             ((status (bets s' ! k) = CONFIRMED \<or> status (bets s' ! k) = FAILED) \<and>
              (\<exists>req. r = ConfirmReq req \<and>
                 bind_text env (req ''betId'') = Inr (Some (bet_id (bets s ! k)))))"
      proof (cases "Some (bet_id (bets s ! k)) = i")
        case False
        with 3(2) k show ?thesis by simp
      next
        case True
        with 3 k show ?thesis by auto
      qed
    qed
  qed
qed

lemma reachable_foreign_keys: "reachable s \<Longrightarrow> foreign_keys s"
proof (induction rule: reachable.induct)
  case start
  show ?case by (simp add: db_open_def)
next
  case (advance s env r)
  from step_shape [of env r s "fst (step env r s)" "snd (step env r s)"] advance.IH
  show ?case by simp
qed

lemma reachable_bets_reference:
  "reachable s \<Longrightarrow> \<forall>b \<in> set (bets s). market_id b \<in> m_id ` set (markets s)"
proof (induction rule: reachable.induct)
  case start
  show ?case by (simp add: db_open_def)
next
  case (advance s env r)
  define s' where "s' = fst (step env r s)"
  have st: "step env r s = (s', snd (step env r s))" by (simp add: s'_def)
  have fk: "foreign_keys s" using advance.hyps by (rule reachable_foreign_keys)
  from step_shape [OF st] have grow: "set (markets s) \<subseteq> set (markets s')" by simp
  from step_shape [OF st] fk consider "bets s' = bets s"
    | row where "bets s' = bets s @ [row]" "market_id row \<in> m_id ` set (markets s)"
    | i f where "bets s' = map (\<lambda>b. if Some (bet_id b) = i then f b else b) (bets s)"
        "\<forall>b. bet_id (f b) = bet_id b \<and> market_id (f b) = market_id b \<and>
             (status (f b) = CONFIRMED \<or> status (f b) = FAILED)"
    by blast
  then have "\<forall>b \<in> set (bets s'). market_id b \<in> m_id ` set (markets s')"
  proof cases
    case 1
    with advance.IH grow show ?thesis by auto
  next
    case 2
    with advance.IH grow show ?thesis by auto
  next
    case 3
    show ?thesis
    proof
      fix b assume "b \<in> set (bets s')"
      with 3(1) obtain b0 where b0: "b0 \<in> set (bets s)"
        "b = (if Some (bet_id b0) = i then f b0 else b0)" by auto
      with 3(2) have "market_id b = market_id b0" by simp
      with advance.IH b0(1) grow show "market_id b \<in> m_id ` set (markets s')" by auto
    qed
  qed
  then show ?case by (simp add: s'_def)
qed

text \<open>
  C4.  In every state the program reaches from the freshly opened database, a bet row
  that an operation appends has a \<open>market_id\<close> that is the id of a market in the table at
  that moment, on the initiate path (the handler looks the market up) and on the
  evm-receipt path (the foreign key of the schema, which the connection enforces); and
  every bet row of the resulting state references a market of that state.
\<close>

theorem bet_market_exists:
  assumes "reachable s" and "step env r s = (s', rep)"
  shows "(\<forall>row. bets s' = bets s @ [row] \<longrightarrow> market_id row \<in> m_id ` set (markets s)) \<and>
         (\<forall>b \<in> set (bets s'). market_id b \<in> m_id ` set (markets s'))"
proof
  have fk: "foreign_keys s" using assms(1) by (rule reachable_foreign_keys)
  from step_shape [OF assms(2)] fk consider "bets s' = bets s"
    | row where "bets s' = bets s @ [row]" "market_id row \<in> m_id ` set (markets s)"
    | i f where "bets s' = map (\<lambda>b. if Some (bet_id b) = i then f b else b) (bets s)"
    by blast
  then show "\<forall>row. bets s' = bets s @ [row] \<longrightarrow> market_id row \<in> m_id ` set (markets s)"
  proof cases
    case 1
    then show ?thesis by simp
  next
    case 2
    then show ?thesis by simp
  next
    case 3
    then have "length (bets s') = length (bets s)" by simp
    then show ?thesis by auto
  qed
next
  from assms have "reachable s'"
    using reachable.advance [of s env r] by simp
  then show "\<forall>b \<in> set (bets s'). market_id b \<in> m_id ` set (markets s')"
    by (rule reachable_bets_reference)
qed


text \<open>
  The evm-receipt handler does not look the market up itself.  For a market id that is
  the id of no market, the insert is refused by the foreign key, and nothing is stored;
  were the enforcement off, the row would be stored.
\<close>

lemma evm_receipt_unknown_market:
  assumes "req = negative_receipt(''marketId'' := JStr ''NoSuchMkt1'')"
  shows "evm_receipt receipt_env seeded req =
           (seeded, ErrorReply 500 ''FOREIGN KEY constraint failed'')"
    and "bets (fst (evm_receipt receipt_env (seeded\<lparr>foreign_keys := False\<rparr>) req)) =
           [negative_bet\<lparr>market_id := ''NoSuchMkt1''\<rparr>]"
proof -
  have ne: "demo_address \<noteq> []" "demo_evm_signature \<noteq> []"
    by (simp_all add: demo_address_def demo_evm_signature_def)
  have vm: "\<And>m g. verifyMessage receipt_env m g = Inr demo_address"
    by (simp add: receipt_env_def seed_env_def)
  have no: "''NoSuchMkt1'' \<notin> set (map m_id (markets seeded))"
    using seeded_facts by (simp add: demo_ids_def)
  have e: "nanoid receipt_env 0 = ''Bet2aaaaaa''" "Date_now receipt_env = 1700000000000"
    by (simp_all add: receipt_env_def seed_env_def)
  show "evm_receipt receipt_env seeded req =
           (seeded, ErrorReply 500 ''FOREIGN KEY constraint failed'')"
    using seeded_facts ne no
    by (simp add: assms evm_receipt_def Let_def negative_receipt_def no_fields_def guarded_def
        attempt_def assert_def truthy_def strict_eq_def lib_def toLowerCase_of_def ToNumber_def
        vm createBet_def and_then_def bind_text_def insert_bet_def e error_handler_def)
  show "bets (fst (evm_receipt receipt_env (seeded\<lparr>foreign_keys := False\<rparr>) req)) =
           [negative_bet\<lparr>market_id := ''NoSuchMkt1''\<rparr>]"
    using seeded_facts ne
    by (simp add: assms evm_receipt_def Let_def negative_receipt_def no_fields_def guarded_def
        attempt_def assert_def truthy_def strict_eq_def lib_def toLowerCase_of_def ToNumber_def
        vm createBet_def and_then_def bind_text_def insert_bet_def e negative_bet_def)
qed

section \<open>The amount of a bet\<close>

lemma rd_positive_cases: "0 < x \<Longrightarrow> rd x = PosInf \<or> (\<exists>v. rd x = Fin v)"
  by (auto simp: rd_def Let_def)

lemma parseAmountSol_clamped:
  assumes "parseAmountSol env x = Some a"
  shows "a = PosInf \<or> (\<exists>k. a = rd (of_int k / 1000000000))"
proof -
  from assms obtain r where r: "ToNumber env x = Fin r" "0 < r"
    and a: "a = fdiv (Math_round (fmul (Fin r) lit_1e9)) lit_1e9"
    by (cases "ToNumber env x")
       (auto simp: parseAmountSol_def Let_def isFinite_def split: if_splits)
  have "0 < r * 1000000000" using r(2) by simp
  from rd_positive_cases [OF this] show ?thesis
  proof
    assume "rd (r * 1000000000) = PosInf"
    then have "a = PosInf"
      by (simp add: a fmul_def lit_1e9_def Math_round_def fdiv_def infinity_def negative_def)
    then show ?thesis ..
  next
    assume "\<exists>v. rd (r * 1000000000) = Fin v"
    then obtain v where "rd (r * 1000000000) = Fin v" ..
    then have "a = rd (of_int \<lfloor>v + 1 / 2\<rfloor> / 1000000000)"
      by (simp add: a fmul_def lit_1e9_def Math_round_def fdiv_def)
    then show ?thesis by blast
  qed
qed

text \<open>
  C3 (as amended).  A bet row created by the initiate path has an amount that is at least
  0.01, hence positive, and, when it is finite, is the binary64 value of \<open>k / 10^9\<close> for an
  integer \<open>k\<close>: a number of at most 9 decimal places.  A bet row created by the evm-receipt
  path stores \<open>Number(amount)\<close> as it is, any number but NaN: it is neither required to be
  positive nor rounded.
\<close>

theorem bet_amounts:
  "(initiate env s req = (s', r) \<longrightarrow>
      s' = s \<or>
      (\<exists>row. s' = s\<lparr>bets := bets s @ [row]\<rparr> \<and> js_ge (amount_sol row) lit_0_01 \<and>
         (amount_sol row = PosInf \<or>
          (\<exists>v k. amount_sol row = Fin v \<and> 0 < v \<and> Fin v = rd (of_int k / 1000000000))))) \<and>
   (evm_receipt env s req = (s', r) \<longrightarrow>
      s' = s \<or>
      (\<exists>row. s' = s\<lparr>bets := bets s @ [row]\<rparr> \<and>
         amount_sol row = ToNumber env (req ''amount'') \<and> amount_sol row \<noteq> NaN))"
proof (intro conjI impI)
  assume "initiate env s req = (s', r)"
  from initiate_shape [OF this] show "s' = s \<or>
      (\<exists>row. s' = s\<lparr>bets := bets s @ [row]\<rparr> \<and> js_ge (amount_sol row) lit_0_01 \<and>
         (amount_sol row = PosInf \<or>
          (\<exists>v k. amount_sol row = Fin v \<and> 0 < v \<and> Fin v = rd (of_int k / 1000000000))))"
  proof
    assume "s' = s"
    then show ?thesis ..
  next
    assume "\<exists>row. s' = s\<lparr>bets := bets s @ [row]\<rparr> \<and> status row = PENDING \<and>
            chain row = ''solana'' \<and> market_id row \<in> m_id ` set (markets s) \<and>
            parseAmountSol env (req ''amountSol'') = Some (amount_sol row) \<and>
            js_ge (amount_sol row) lit_0_01"
    then obtain row where row: "s' = s\<lparr>bets := bets s @ [row]\<rparr>"
      "parseAmountSol env (req ''amountSol'') = Some (amount_sol row)"
      "js_ge (amount_sol row) lit_0_01" by blast
    from js_ge_lit_positive [OF row(3)] parseAmountSol_clamped [OF row(2)]
    have "amount_sol row = PosInf \<or>
          (\<exists>v k. amount_sol row = Fin v \<and> 0 < v \<and> Fin v = rd (of_int k / 1000000000))"
      by metis
    with row show ?thesis by blast
  qed
next
  assume "evm_receipt env s req = (s', r)"
  from evm_receipt_shape [OF this] show "s' = s \<or>
      (\<exists>row. s' = s\<lparr>bets := bets s @ [row]\<rparr> \<and>
         amount_sol row = ToNumber env (req ''amount'') \<and> amount_sol row \<noteq> NaN)"
    by blast
qed

lemma negative_step:
  "step receipt_env (EvmReceiptReq negative_receipt) seeded =
     (seeded\<lparr>bets := [negative_bet]\<rparr>, ReceiptOk ''Bet2aaaaaa'' demo_address)"
proof -
  have cb: "createBet receipt_env seeded (JStr ''Mk1aaaaaaa'') (JStr ''NO'') (Fin (- 5))
              (JStr demo_address) ''evm'' RECEIPT_ONLY =
            Inr (seeded\<lparr>bets := bets seeded @ [negative_bet]\<rparr>, ''Bet2aaaaaa'')"
    using createBet_strings [of "''NO''" "Fin (- 5)" receipt_env seeded "''Mk1aaaaaaa''"
        demo_address "''evm''" RECEIPT_ONLY] seeded_first_market seeded_facts
    by (simp add: receipt_env_def seed_env_def negative_bet_def)
  have vm: "\<And>m g. verifyMessage receipt_env m g = Inr demo_address"
    by (simp add: receipt_env_def seed_env_def)
  have ne: "demo_address \<noteq> []" "demo_evm_signature \<noteq> []"
    by (simp_all add: demo_address_def demo_evm_signature_def)
  show ?thesis
    using seeded_facts ne
    by (simp add: step_def evm_receipt_def Let_def negative_receipt_def no_fields_def guarded_def
        attempt_def assert_def truthy_def strict_eq_def lib_def toLowerCase_of_def ToNumber_def
        cb vm)
qed

text \<open>
  Counterexample to C3 as stated: in the seeded database, a signed receipt with the amount
  \<open>-5\<close> creates a bet row whose amount is \<open>-5\<close>.
\<close>

theorem negative_receipt_counterexample:
  "bets (fst (step receipt_env (EvmReceiptReq negative_receipt) seeded)) = [negative_bet] \<and>
   amount_sol negative_bet = Fin (- 5) \<and> js_le (Fin (- 5)) (Fin 0)"
  by (simp add: negative_step negative_bet_def)

theorem bet_amounts_witness:
  "evm_receipt receipt_env seeded negative_receipt =
     (seeded\<lparr>bets := bets seeded @ [negative_bet]\<rparr>, ReceiptOk ''Bet2aaaaaa'' demo_address) \<and>
   amount_sol negative_bet = ToNumber receipt_env (negative_receipt ''amount'') \<and>
   amount_sol negative_bet \<noteq> NaN \<and>
   initiate bet_env seeded demo_initiate =
     (seeded\<lparr>bets := bets seeded @ [demo_bet]\<rparr>, snd (initiate bet_env seeded demo_initiate)) \<and>
   js_ge (amount_sol demo_bet) lit_0_01"
proof -
  have e: "evm_receipt receipt_env seeded negative_receipt =
     (seeded\<lparr>bets := bets seeded @ [negative_bet]\<rparr>, ReceiptOk ''Bet2aaaaaa'' demo_address)"
    using negative_step seeded_facts by (simp add: step_def)
  have ne: "\<And>b. seeded\<lparr>bets := bets seeded @ [b]\<rparr> \<noteq> seeded"
    using seeded_facts by (auto dest: arg_cong [where f = bets])
  from bet_amounts [of receipt_env seeded negative_receipt
      "seeded\<lparr>bets := bets seeded @ [negative_bet]\<rparr>" "ReceiptOk ''Bet2aaaaaa'' demo_address"] e ne
  obtain row where "seeded\<lparr>bets := bets seeded @ [negative_bet]\<rparr> = seeded\<lparr>bets := bets seeded @ [row]\<rparr>"
    "amount_sol row = ToNumber receipt_env (negative_receipt ''amount'')" "amount_sol row \<noteq> NaN"
    by auto
  moreover from this(1) have "row = negative_bet"
    by (auto dest: arg_cong [where f = bets])
  ultimately have n: "amount_sol negative_bet = ToNumber receipt_env (negative_receipt ''amount'')"
    "amount_sol negative_bet \<noteq> NaN" by simp_all
  have "fst (initiate bet_env seeded demo_initiate) = pending"
    by (simp add: pending_def step_def)
  then have i: "initiate bet_env seeded demo_initiate =
     (seeded\<lparr>bets := bets seeded @ [demo_bet]\<rparr>, snd (initiate bet_env seeded demo_initiate))"
    using seeded_facts by (simp add: pending_eq prod_eq_iff)
  from bet_amounts [of bet_env seeded demo_initiate
      "seeded\<lparr>bets := bets seeded @ [demo_bet]\<rparr>" "snd (initiate bet_env seeded demo_initiate)"] i ne
  obtain row' where "seeded\<lparr>bets := bets seeded @ [demo_bet]\<rparr> = seeded\<lparr>bets := bets seeded @ [row']\<rparr>"
    "js_ge (amount_sol row') lit_0_01"
    by auto
  moreover from this(1) have "row' = demo_bet"
    by (auto dest: arg_cong [where f = bets])
  ultimately have "js_ge (amount_sol demo_bet) lit_0_01" by simp
  with e n i show ?thesis by simp
qed


section \<open>The theorems on the sample run\<close>

lemma confirmed_find: "find (\<lambda>b. bet_id b = ''Bet1aaaaaa'') (bets confirmed) = Some confirmed_bet"
  by (simp add: confirmed_eq confirmed_bet_def demo_bet_def)

lemma retry_confirm_fields:
  "retry_confirm ''betId'' = JStr ''Bet1aaaaaa''"
  "retry_confirm ''txSignature'' = JStr retry_signature"
  "retry_confirm ''wallet'' = JStr demo_wallet"
  "retry_signature \<noteq> []"
  by (simp_all add: retry_confirm_def demo_confirm_def retry_signature_def)

lemma not_found_verdict:
  "verifySolTransfer bet_env (JStr retry_signature) (JStr demo_wallet)
     (env_var (TREASURY_PUBKEY bet_env)) n = Inr (VerifiedNot ''TX_NOT_FOUND'')"
  by (simp add: verifySolTransfer_def bet_env_def seed_env_def)

lemma reconfirmed_step:
  "step bet_env (ConfirmReq retry_confirm) confirmed =
     (seeded\<lparr>bets := [confirmed_bet\<lparr>status := FAILED, tx := Some retry_signature\<rparr>]\<rparr>,
      ConfirmFailed ''TX_NOT_FOUND'')"
proof -
  have w: "wallet confirmed_bet = demo_wallet" by (simp add: confirmed_bet_def demo_bet_def)
  show ?thesis
    unfolding step_def request.case
      confirm_outcome [where req = retry_confirm and env = bet_env and s = confirmed,
        OF retry_confirm_fields(1) _ retry_confirm_fields(2) retry_confirm_fields(4)
           retry_confirm_fields(3) demo_confirm_fields(5) confirmed_find w,
        simplified]
    by (simp add: not_found_verdict confirmed_eq confirmed_bet_def demo_bet_def)
qed

text \<open>
  Counterexample to C1 as stated: the sample bet is \<open>CONFIRMED\<close>; a later confirm request
  for the same bet id from the same wallet, whose transaction the RPC node does not find,
  sets it to \<open>FAILED\<close>.
\<close>

theorem reconfirm_counterexample:
  "reachable confirmed \<and> map bet_id (bets confirmed) = [''Bet1aaaaaa''] \<and>
   map status (bets confirmed) = [CONFIRMED] \<and>
   map bet_id (bets (fst (step bet_env (ConfirmReq retry_confirm) confirmed))) = [''Bet1aaaaaa''] \<and>
   map status (bets (fst (step bet_env (ConfirmReq retry_confirm) confirmed))) = [FAILED]"
proof -
  have "map bet_id (bets confirmed) = [''Bet1aaaaaa'']" and "map status (bets confirmed) = [CONFIRMED]"
    by (simp_all add: confirmed_eq confirmed_bet_def demo_bet_def)
  moreover have "bets (fst (step bet_env (ConfirmReq retry_confirm) confirmed)) =
      [confirmed_bet\<lparr>status := FAILED, tx := Some retry_signature\<rparr>]"
    by (simp add: reconfirmed_step)
  then have "map bet_id (bets (fst (step bet_env (ConfirmReq retry_confirm) confirmed))) = [''Bet1aaaaaa'']"
    and "map status (bets (fst (step bet_env (ConfirmReq retry_confirm) confirmed))) = [FAILED]"
    by (simp_all add: confirmed_bet_def demo_bet_def)
  ultimately show ?thesis using reachable_confirmed by simp
qed

theorem status_transitions_witness:
  "step bet_env (ConfirmReq retry_confirm) confirmed = (reconfirmed, ConfirmFailed ''TX_NOT_FOUND'') \<and>
   length (bets confirmed) \<le> length (bets reconfirmed) \<and>
   bet_id (bets reconfirmed ! 0) = bet_id (bets confirmed ! 0) \<and>
   status (bets confirmed ! 0) = CONFIRMED \<and> status (bets reconfirmed ! 0) = FAILED"
proof -
  have st: "step bet_env (ConfirmReq retry_confirm) confirmed =
              (reconfirmed, ConfirmFailed ''TX_NOT_FOUND'')"
    by (simp add: reconfirmed_def reconfirmed_step)
  have l: "0 < length (bets confirmed)" by (simp add: confirmed_eq)
  from status_transitions [OF st] l
  have "length (bets confirmed) \<le> length (bets reconfirmed)"
    and "bet_id (bets reconfirmed ! 0) = bet_id (bets confirmed ! 0)"
    by simp_all
  moreover have "status (bets confirmed ! 0) = CONFIRMED"
    by (simp add: confirmed_eq confirmed_bet_def)
  moreover have "status (bets reconfirmed ! 0) = FAILED"
    by (simp add: reconfirmed_def reconfirmed_step)
  ultimately show ?thesis using st by simp
qed

theorem confirm_verification_witness:
  "find (\<lambda>b. bet_id b = ''Bet1aaaaaa'') (bets pending) = Some demo_bet \<and>
   wallet demo_bet = demo_wallet \<and>
   getParsedTransaction paid_env (JStr demo_signature) = RpcParsed [demo_transfer] \<and>
   find is_transfer [demo_transfer] = Some demo_transfer \<and>
   confirm paid_env pending demo_confirm =
     (seeded\<lparr>bets := [confirmed_bet]\<rparr>,
      ConfirmOk (JStr ''Bet1aaaaaa'') (JStr demo_signature) (''bet:Bet1aaaaaa:sig:'' @ demo_signature))"
proof -
  have rpc: "getParsedTransaction paid_env (JStr demo_signature) = RpcParsed [demo_transfer]"
    by (simp add: paid_env_def)
  have tr: "find is_transfer [demo_transfer] = Some demo_transfer"
    by (simp add: is_transfer_def demo_transfer_def strict_eq_def)
  have ne: "''Bet1aaaaaa'' \<noteq> []" by simp
  have ok: "strict_eq (info_source demo_transfer) (JStr demo_wallet) \<and>
      strict_eq (info_destination demo_transfer) (env_var (TREASURY_PUBKEY paid_env)) \<and>
      num_eq (ToNumber paid_env (info_lamports demo_transfer))
             (Math_round (fmul (amount_sol demo_bet) LAMPORTS_PER_SOL))"
    by (simp add: demo_transfer_def strict_eq_def paid_env_def bet_env_def seed_env_def env_var_def
        ToNumber_def demo_bet_def lamports_1 num_eq_def)
  from confirm_verification [where req = demo_confirm and env = paid_env and s = pending,
      OF demo_confirm_fields(1) ne demo_confirm_fields(2) demo_confirm_fields(4)
         demo_confirm_fields(3) demo_confirm_fields(5) pending_find demo_confirm_fields(6)]
    rpc tr ok
  have "confirm paid_env pending demo_confirm =
     (pending\<lparr>bets := map (\<lambda>x. if bet_id x = ''Bet1aaaaaa''
                              then x\<lparr>status := CONFIRMED, tx := Some demo_signature,
                                     proof_text := Some (''bet:'' @ ''Bet1aaaaaa'' @ '':sig:'' @ demo_signature)\<rparr>
                              else x) (bets pending)\<rparr>,
      ConfirmOk (JStr ''Bet1aaaaaa'') (JStr demo_signature) (''bet:'' @ ''Bet1aaaaaa'' @ '':sig:'' @ demo_signature))"
    by simp
  then have "confirm paid_env pending demo_confirm =
     (seeded\<lparr>bets := [confirmed_bet]\<rparr>,
      ConfirmOk (JStr ''Bet1aaaaaa'') (JStr demo_signature) (''bet:Bet1aaaaaa:sig:'' @ demo_signature))"
    by (simp add: pending_eq demo_bet_def confirmed_bet_def)
  with pending_find demo_confirm_fields(6) rpc tr show ?thesis by simp
qed

theorem bet_market_exists_witness:
  "reachable seeded \<and>
   step receipt_env (EvmReceiptReq negative_receipt) seeded =
     (seeded\<lparr>bets := bets seeded @ [negative_bet]\<rparr>, ReceiptOk ''Bet2aaaaaa'' demo_address) \<and>
   market_id negative_bet \<in> m_id ` set (markets seeded)"
proof -
  have st: "step receipt_env (EvmReceiptReq negative_receipt) seeded =
     (seeded\<lparr>bets := bets seeded @ [negative_bet]\<rparr>, ReceiptOk ''Bet2aaaaaa'' demo_address)"
    using negative_step seeded_facts by simp
  from bet_market_exists [OF reachable_seeded st]
  have "market_id negative_bet \<in> m_id ` set (markets seeded)" by simp
  with reachable_seeded st show ?thesis by simp
qed

end
